theory Spec2Isabelle
  imports Main "HOL-Library.Word" "HOL-Library.Multiset" "HOL-Library.List_Lexorder"
    "HOL-Library.Char_ord"
begin

section \<open>Bytecode\<close>

text \<open>
  \<^verbatim>\<open>type Opcode byte\<close> and \<^verbatim>\<open>type Instructions []byte\<close> of package \<^verbatim>\<open>code\<close>.
\<close>

type_synonym Opcode = "8 word"
type_synonym Instructions = "8 word list"

text \<open>
  Modelled from the spec: package \<^verbatim>\<open>code\<close> (the opcode constants, their operand widths
  and \<^verbatim>\<open>Make\<close>) is not among the sources. The opcodes are one byte each and are numbered
  here in the order of the opcode table of the specification; operands are big-endian,
  two bytes wide (u16) or one byte wide (u8).
\<close>

definition OpConstant :: Opcode where "OpConstant = 0"
definition OpPop :: Opcode where "OpPop = 1"
definition OpAdd :: Opcode where "OpAdd = 2"
definition OpSub :: Opcode where "OpSub = 3"
definition OpMul :: Opcode where "OpMul = 4"
definition OpDiv :: Opcode where "OpDiv = 5"
definition OpTrue :: Opcode where "OpTrue = 6"
definition OpFalse :: Opcode where "OpFalse = 7"
definition OpEqual :: Opcode where "OpEqual = 8"
definition OpNotEqual :: Opcode where "OpNotEqual = 9"
definition OpGreaterThan :: Opcode where "OpGreaterThan = 10"
definition OpBang :: Opcode where "OpBang = 11"
definition OpMinus :: Opcode where "OpMinus = 12"
definition OpJump :: Opcode where "OpJump = 13"
definition OpJumpNotTrue :: Opcode where "OpJumpNotTrue = 14"
definition OpNull :: Opcode where "OpNull = 15"
definition OpSetGlobal :: Opcode where "OpSetGlobal = 16"
definition OpGetGlobal :: Opcode where "OpGetGlobal = 17"
definition OpSetLocal :: Opcode where "OpSetLocal = 18"
definition OpGetLocal :: Opcode where "OpGetLocal = 19"
definition OpGetBuiltin :: Opcode where "OpGetBuiltin = 20"
definition OpGetFreeVar :: Opcode where "OpGetFreeVar = 21"
definition OpArray :: Opcode where "OpArray = 22"
definition OpHash :: Opcode where "OpHash = 23"
definition OpIndex :: Opcode where "OpIndex = 24"
definition OpCall :: Opcode where "OpCall = 25"
definition OpReturnValue :: Opcode where "OpReturnValue = 26"
definition OpReturn :: Opcode where "OpReturn = 27"
definition OpClosure :: Opcode where "OpClosure = 28"
definition OpCurrentClosure :: Opcode where "OpCurrentClosure = 29"

lemmas Opcode_defs =
  OpConstant_def OpPop_def OpAdd_def OpSub_def OpMul_def OpDiv_def OpTrue_def OpFalse_def
  OpEqual_def OpNotEqual_def OpGreaterThan_def OpBang_def OpMinus_def OpJump_def
  OpJumpNotTrue_def OpNull_def OpSetGlobal_def OpGetGlobal_def OpSetLocal_def OpGetLocal_def
  OpGetBuiltin_def OpGetFreeVar_def OpArray_def OpHash_def OpIndex_def OpCall_def
  OpReturnValue_def OpReturn_def OpClosure_def OpCurrentClosure_def

text \<open>
  Modelled from the spec: the table of operand widths (in bytes) per opcode, \<open>None\<close> for a
  byte that is no opcode.
\<close>

definition OperandWidths :: "Opcode \<Rightarrow> nat list option" where
  "OperandWidths op =
     (if op \<in> {OpConstant, OpJump, OpJumpNotTrue, OpSetGlobal, OpGetGlobal, OpArray, OpHash}
        then Some [2]
      else if op \<in> {OpSetLocal, OpGetLocal, OpGetBuiltin, OpGetFreeVar, OpCall} then Some [1]
      else if op = OpClosure then Some [2, 1]
      else if op \<in> {OpPop, OpAdd, OpSub, OpMul, OpDiv, OpTrue, OpFalse, OpEqual, OpNotEqual,
                     OpGreaterThan, OpBang, OpMinus, OpNull, OpIndex, OpReturnValue, OpReturn,
                     OpCurrentClosure} then Some []
      else None)"

text \<open>
  One operand of the given width: \<^verbatim>\<open>uint16(operand)\<close> written big-endian, or
  \<^verbatim>\<open>byte(operand)\<close>. The Go conversions truncate the \<^verbatim>\<open>int\<close>, also a negative one.
\<close>

definition putOperand :: "nat \<Rightarrow> int \<Rightarrow> 8 word list" where
  "putOperand width operand =
     (if width = 2 then [word_of_int (operand div 256), word_of_int operand]
      else if width = 1 then [word_of_int operand]
      else [])"

fun putOperands :: "nat list \<Rightarrow> int list \<Rightarrow> 8 word list" where
  "putOperands (w # ws) (x # xs) = putOperand w x @ putOperands ws xs"
| "putOperands (w # ws) [] = replicate w 0 @ putOperands ws []"
| "putOperands [] xs = []"

text \<open>
  Modelled from the spec: \<^verbatim>\<open>Make(op, operands...)\<close>. An unknown opcode gives the empty
  instruction (and an error, which every caller in the compiler discards). The instruction
  has the opcode's fixed width; the compiler never passes more operands than the opcode has.
\<close>

definition Make :: "Opcode \<Rightarrow> int list \<Rightarrow> Instructions" where
  "Make op operands =
     (case OperandWidths op of
        None \<Rightarrow> []
      | Some widths \<Rightarrow> op # putOperands widths operands)"

section \<open>Objects\<close>

text \<open>
  Modelled from the spec: of package \<^verbatim>\<open>object\<close> only \<^verbatim>\<open>Array\<close> is among the sources. These
  are the runtime values that the compiler and the virtual machine under verification
  construct or inspect. \<^verbatim>\<open>Integer.Value\<close> is an \<^verbatim>\<open>int64\<close>.
\<close>

datatype Object =
    Integer "64 word"
  | Boolean bool
  | String string
  | Array "Object list"
  | CompiledFunction Instructions nat nat

datatype ObjectType = IntegerType | BooleanType | StringType | ArrayType | CompiledFunctionType

fun Type :: "Object \<Rightarrow> ObjectType" where
  "Type (Integer _) = IntegerType"
| "Type (Boolean _) = BooleanType"
| "Type (String _) = StringType"
| "Type (Array _) = ArrayType"
| "Type (CompiledFunction _ _ _) = CompiledFunctionType"

section \<open>Errors\<close>

text \<open>
  An \<^verbatim>\<open>error\<close> value made by \<^verbatim>\<open>errors.Errorf(format, args...)\<close> is kept as the format
  and its arguments; \<^verbatim>\<open>errors.New(msg)\<close> has no arguments.
\<close>

datatype fmt_arg = TypeArg ObjectType | OpArg Opcode | StrArg string

datatype error = Errorf string "fmt_arg list"

abbreviation errors_New :: "string \<Rightarrow> error" where
  "errors_New msg \<equiv> Errorf msg []"

section \<open>Syntax tree\<close>

text \<open>
  Modelled from the spec: of package \<^verbatim>\<open>ast\<close> only \<^verbatim>\<open>ExpressionStatement\<close> is among the sources.
  The node types and their fields are those that \<^verbatim>\<open>Compile\<close> reads. \<^verbatim>\<open>ast.Integer.Value\<close> is an
  \<^verbatim>\<open>int64\<close>; a parameter (\<^verbatim>\<open>*ast.Identifier\<close>) and the name of a let statement are kept as
  their \<^verbatim>\<open>Value\<close>; a \<^verbatim>\<open>*ast.BlockStatement\<close> as the list of its statements, the \<^verbatim>\<open>Else\<close> of an
  if expression being absent when it is nil. \<^verbatim>\<open>ast.Hash.Pairs\<close> is a Go map whose keys are the
  key nodes themselves (pointers, so two keys are different entries even when they look the
  same); it is kept as the list of its entries in the order in which \<^verbatim>\<open>range\<close> enumerates
  them on this run.
\<close>

datatype Expression =
    ast_Identifier string
  | ast_Integer "64 word"
  | ast_String string
  | ast_Boolean bool
  | ast_PrefixExpression string Expression
  | ast_InfixExpression string Expression Expression
  | ast_IfExpression Expression "Statement list" "Statement list option"
  | ast_FunctionExpression "string list" "Statement list"
  | ast_CallExpression Expression "Expression list"
  | ast_Array "Expression list"
  | ast_Hash "(Expression \<times> Expression) list"
  | ast_IndexExpression Expression Expression
and Statement =
    ast_LetStatement string Expression
  | ast_ReturnStatement Expression
  | ast_ExpressionStatement Expression

section \<open>Symbol table\<close>

text \<open>
  Modelled from the spec: the symbol table is not among the sources. A table has its
  name-to-symbol map, its definition counter and the ordered list of the symbols it captured;
  the chain of \<^verbatim>\<open>Outer\<close> pointers is the list of tables, the current one first. Resolving a
  name mutates the tables on the way (a symbol found further out that is neither global nor
  builtin is promoted to a free symbol in every table in between), so it returns the chain.
\<close>

datatype SymbolScope = GlobalScope | LocalScope | BuiltinScope | FreeScope | FunctionScope

record Symbol =
  Name :: string
  SymbolScope :: SymbolScope
  Index :: nat

record SymbolTable =
  store :: "string \<rightharpoonup> Symbol"
  numDefinitions :: nat
  FreeSymbols :: "Symbol list"

definition NewSymbolTable :: SymbolTable where
  "NewSymbolTable = \<lparr>store = Map.empty, numDefinitions = 0, FreeSymbols = []\<rparr>"

fun Define :: "string \<Rightarrow> SymbolTable list \<Rightarrow> (Symbol \<times> SymbolTable list) option" where
  "Define name [] = None"
| "Define name (t # outer) =
     (let symbol = \<lparr>Name = name,
                     SymbolScope = (if outer = [] then GlobalScope else LocalScope),
                     Index = numDefinitions t\<rparr>
      in Some (symbol,
               t\<lparr>store := (store t)(name \<mapsto> symbol), numDefinitions := numDefinitions t + 1\<rparr>
                 # outer))"

fun DefineBuiltin :: "nat \<Rightarrow> string \<Rightarrow> SymbolTable \<Rightarrow> SymbolTable" where
  "DefineBuiltin i name t =
     t\<lparr>store := (store t)(name \<mapsto> \<lparr>Name = name, SymbolScope = BuiltinScope, Index = i\<rparr>)\<rparr>"

definition defineFree :: "Symbol \<Rightarrow> SymbolTable \<Rightarrow> Symbol \<times> SymbolTable" where
  "defineFree original t =
     (let symbol = \<lparr>Name = Name original, SymbolScope = FreeScope,
                     Index = length (FreeSymbols t)\<rparr>
      in (symbol, t\<lparr>store := (store t)(Name original \<mapsto> symbol),
                     FreeSymbols := FreeSymbols t @ [original]\<rparr>))"

fun Resolve :: "string \<Rightarrow> SymbolTable list \<Rightarrow> (Symbol \<times> SymbolTable list) option" where
  "Resolve name [] = None"
| "Resolve name (t # outer) =
     (case store t name of
        Some symbol \<Rightarrow> Some (symbol, t # outer)
      | None \<Rightarrow>
          (case Resolve name outer of
             None \<Rightarrow> None
           | Some (symbol, outer') \<Rightarrow>
               if SymbolScope symbol = GlobalScope \<or> SymbolScope symbol = BuiltinScope
               then Some (symbol, t # outer')
               else (case defineFree symbol t of (free, t') \<Rightarrow> Some (free, t' # outer'))))"

text \<open>Modelled from the spec: the names of \<^verbatim>\<open>object.Builtins\<close>, in the order of the table.\<close>

definition Builtins :: "string list" where
  "Builtins = [''len'', ''first'', ''last'', ''rest'', ''push'', ''puts'']"

section \<open>Compiler\<close>

record EmittedInstruction =
  Opcode :: Opcode
  Position :: nat

record CompilationScope =
  instructions :: Instructions
  lastInstruction :: EmittedInstruction
  previousInstruction :: EmittedInstruction

text \<open>
  The struct \<^verbatim>\<open>Compiler\<close>. \<^verbatim>\<open>symbolTable\<close> is the chain that the pointer leads to (empty: nil).
\<close>

record Compiler =
  constants :: "Object list"
  symbolTable :: "SymbolTable list"
  scopes :: "CompilationScope list"
  scopeIndex :: int

text \<open>
  A method of the compiler fails with the \<^verbatim>\<open>error\<close> it returns or with a panic (an index out
  of range, a nil table); the state it leaves behind is then of no use, since the bytecode
  is taken only after a successful compilation.
\<close>

datatype failure = Error error | Panicked

definition seq :: "failure + 'a \<Rightarrow> ('a \<Rightarrow> failure + 'b) \<Rightarrow> failure + 'b" where
  "seq r f = (case r of Inl e \<Rightarrow> Inl e | Inr x \<Rightarrow> f x)"

lemma seq_cong [fundef_cong]:
  "r = r' \<Longrightarrow> (\<And>x. r' = Inr x \<Longrightarrow> f x = f' x) \<Longrightarrow> seq r f = seq r' f'"
  by (auto simp: seq_def split: sum.splits)

definition emptyInstruction :: EmittedInstruction where
  "emptyInstruction = \<lparr>Opcode = 0, Position = 0\<rparr>"

definition emptyScope :: CompilationScope where
  "emptyScope = \<lparr>instructions = [], lastInstruction = emptyInstruction,
                  previousInstruction = emptyInstruction\<rparr>"

definition New_Compiler :: Compiler where
  "New_Compiler =
     \<lparr>constants = [],
      symbolTable = [fold (\<lambda>(i, name). DefineBuiltin i name) (enumerate 0 Builtins) NewSymbolTable],
      scopes = [emptyScope],
      scopeIndex = 0\<rparr>"

definition NewWithState :: "SymbolTable list \<Rightarrow> Object list \<Rightarrow> Compiler" where
  "NewWithState symbolTable' constants' =
     New_Compiler\<lparr>symbolTable := symbolTable', constants := constants'\<rparr>"

text \<open>\<^verbatim>\<open>compiler.scopes[compiler.scopeIndex]\<close>, read and written.\<close>

definition currentScope :: "Compiler \<Rightarrow> failure + CompilationScope" where
  "currentScope c =
     (if 0 \<le> scopeIndex c \<and> nat (scopeIndex c) < length (scopes c)
      then Inr (scopes c ! nat (scopeIndex c)) else Inl Panicked)"

definition setCurrentScope :: "CompilationScope \<Rightarrow> Compiler \<Rightarrow> Compiler" where
  "setCurrentScope s c = c\<lparr>scopes := (scopes c)[nat (scopeIndex c) := s]\<rparr>"

definition addConstant :: "Object \<Rightarrow> Compiler \<Rightarrow> nat \<times> Compiler" where
  "addConstant obj c = (length (constants c), c\<lparr>constants := constants c @ [obj]\<rparr>)"

definition emit :: "Opcode \<Rightarrow> int list \<Rightarrow> Compiler \<Rightarrow> failure + (nat \<times> Compiler)" where
  "emit opcode operands c =
     seq (currentScope c) (\<lambda>s.
       let newInstructionIndex = length (instructions s) in
       Inr (newInstructionIndex,
            setCurrentScope
              (s\<lparr>instructions := instructions s @ Make opcode operands,
                 previousInstruction := lastInstruction s,
                 lastInstruction := \<lparr>Opcode = opcode, Position = newInstructionIndex\<rparr>\<rparr>) c))"

text \<open>\<^verbatim>\<open>compiler.emit(...)\<close> as a statement: the position it returns is dropped.\<close>

definition emit0 :: "Opcode \<Rightarrow> int list \<Rightarrow> Compiler \<Rightarrow> failure + Compiler" where
  "emit0 opcode operands c = seq (emit opcode operands c) (\<lambda>(_, c'). Inr c')"

text \<open>
  \<^verbatim>\<open>instructions[:lastInstruction.Position]\<close>: the model keeps no capacity, so a position
  beyond the length is out of range (no position that \<^verbatim>\<open>emit\<close> records is).
\<close>

definition removeLastInstruction :: "Compiler \<Rightarrow> failure + Compiler" where
  "removeLastInstruction c =
     seq (currentScope c) (\<lambda>s.
       if Position (lastInstruction s) > length (instructions s) then Inl Panicked
       else Inr (setCurrentScope
              (s\<lparr>instructions := take (Position (lastInstruction s)) (instructions s),
                 lastInstruction := previousInstruction s\<rparr>) c))"

definition replaceInstruction :: "nat \<Rightarrow> Instructions \<Rightarrow> Compiler \<Rightarrow> failure + Compiler" where
  "replaceInstruction instructionIndex instruction c =
     (if instruction = [] then Inr c
      else seq (currentScope c) (\<lambda>s.
        if instructionIndex + length instruction > length (instructions s) then Inl Panicked
        else Inr (setCurrentScope
               (s\<lparr>instructions :=
                    take instructionIndex (instructions s) @ instruction
                      @ drop (instructionIndex + length instruction) (instructions s)\<rparr>) c)))"

definition changeOperand :: "nat \<Rightarrow> int \<Rightarrow> Compiler \<Rightarrow> failure + Compiler" where
  "changeOperand instructionIndex operand c =
     seq (currentScope c) (\<lambda>s.
       if instructionIndex \<ge> length (instructions s) then Inl Panicked
       else replaceInstruction instructionIndex
              (Make (instructions s ! instructionIndex) [operand]) c)"

definition lastInstructionIs :: "Opcode \<Rightarrow> Compiler \<Rightarrow> failure + bool" where
  "lastInstructionIs op c = seq (currentScope c) (\<lambda>s. Inr (Opcode (lastInstruction s) = op))"

definition replaceLastPopWithReturn :: "Compiler \<Rightarrow> failure + Compiler" where
  "replaceLastPopWithReturn c =
     seq (currentScope c) (\<lambda>s.
     seq (replaceInstruction (Position (lastInstruction s)) (Make OpReturnValue []) c) (\<lambda>c'.
     seq (currentScope c') (\<lambda>s'.
       Inr (setCurrentScope
              (s'\<lparr>lastInstruction := (lastInstruction s')\<lparr>Opcode := OpReturnValue\<rparr>\<rparr>) c'))))"

definition enterScope :: "Compiler \<Rightarrow> Compiler" where
  "enterScope c =
     c\<lparr>symbolTable := NewSymbolTable # symbolTable c,
       scopes := scopes c @ [emptyScope],
       scopeIndex := scopeIndex c + 1\<rparr>"

definition leaveScope :: "Compiler \<Rightarrow> failure + (Instructions \<times> Compiler)" where
  "leaveScope c =
     (case symbolTable c of
        [] \<Rightarrow> Inl Panicked
      | t # outer \<Rightarrow>
          seq (currentScope c) (\<lambda>s.
            Inr (instructions s,
                 c\<lparr>symbolTable := outer, scopes := butlast (scopes c),
                   scopeIndex := scopeIndex c - 1\<rparr>)))"

definition loadOpcode :: "Symbol \<Rightarrow> Opcode" where
  "loadOpcode symbol =
     (case SymbolScope symbol of
        GlobalScope \<Rightarrow> OpGetGlobal
      | BuiltinScope \<Rightarrow> OpGetBuiltin
      | FreeScope \<Rightarrow> OpGetFreeVar
      | _ \<Rightarrow> OpGetLocal)"

definition loadSymbol :: "Symbol \<Rightarrow> Compiler \<Rightarrow> failure + Compiler" where
  "loadSymbol symbol c = emit0 (loadOpcode symbol) [int (Index symbol)] c"

text \<open>The loop \<^verbatim>\<open>for _, symbol := range freeSymbols { compiler.loadSymbol(symbol) }\<close>.\<close>

fun loadSymbols :: "Symbol list \<Rightarrow> Compiler \<Rightarrow> failure + Compiler" where
  "loadSymbols [] c = Inr c"
| "loadSymbols (symbol # symbols) c = seq (loadSymbol symbol c) (loadSymbols symbols)"

text \<open>The loop that defines the parameters of a function literal in the new table.\<close>

fun defineParameters :: "string list \<Rightarrow> Compiler \<Rightarrow> failure + Compiler" where
  "defineParameters [] c = Inr c"
| "defineParameters (p # ps) c =
     (case Define p (symbolTable c) of
        None \<Rightarrow> Inl Panicked
      | Some (_, tables) \<Rightarrow> defineParameters ps (c\<lparr>symbolTable := tables\<rparr>))"

text \<open>
  \<^verbatim>\<open>sort.Slice(keys, func(i, j int) bool { return keys[i].String() < keys[j].String() })\<close>
  runs the insertion sort of package \<^verbatim>\<open>sort\<close> on a slice of at most twelve elements: each
  element in turn is swapped towards the front as long as it is less than its left neighbour.
  \<open>sift\<close> is that inner loop, on the part already sorted, held back to front. For longer
  slices \<^verbatim>\<open>sort.Slice\<close> uses another algorithm, with the same result when no two elements
  compare equal.
\<close>

fun sift :: "('a \<Rightarrow> 'a \<Rightarrow> bool) \<Rightarrow> 'a \<Rightarrow> 'a list \<Rightarrow> 'a list" where
  "sift lt x [] = [x]"
| "sift lt x (y # ys) = (if lt x y then y # sift lt x ys else x # y # ys)"

definition sort_Slice :: "('a \<Rightarrow> 'a \<Rightarrow> bool) \<Rightarrow> 'a list \<Rightarrow> 'a list" where
  "sort_Slice lt xs = rev (foldl (\<lambda>acc x. sift lt x acc) [] xs)"

text \<open>
  The entries of a hash literal in the order in which they are compiled. \<open>txt\<close> is the
  textual form of a node (\<^verbatim>\<open>key.String()\<close>); Go compares strings bytewise, as the
  lexicographic order on \<open>string\<close> does.
\<close>

definition sortedPairs ::
  "(Expression \<Rightarrow> string) \<Rightarrow> (Expression \<times> Expression) list \<Rightarrow> (Expression \<times> Expression) list"
where
  "sortedPairs txt pairs = sort_Slice (\<lambda>p q. txt (fst p) < txt (fst q)) pairs"

lemma size_list_sift:
  "size_list f (sift lt x ys) = size_list f (x # ys)"
  by (induction ys) auto

lemma size_list_foldl_sift:
  "size_list f (foldl (\<lambda>acc x. sift lt x acc) acc0 xs) = size_list f acc0 + size_list f xs"
  by (induction xs arbitrary: acc0) (auto simp: size_list_sift)

lemma size_list_sortedPairs [simp]:
  "size_list f (sortedPairs txt pairs) = size_list f pairs"
  by (simp add: sortedPairs_def sort_Slice_def size_list_conv_sum_list rev_map [symmetric]
      size_list_foldl_sift [unfolded size_list_conv_sum_list, of _ _ "[]", simplified])

text \<open>
  \<^verbatim>\<open>Compile\<close>, one function per kind of node: an expression, a statement, the statements of a
  program or block, the elements of an array or the arguments of a call, and the entries of
  a hash literal. The textual form \<open>txt\<close> of a node, which only the hash literal uses, is
  a parameter, since the \<^verbatim>\<open>String\<close> methods are not among the sources.
\<close>

function (sequential)
  Compile_Expression :: "(Expression \<Rightarrow> string) \<Rightarrow> Expression \<Rightarrow> Compiler \<Rightarrow> failure + Compiler"
  and Compile_Statement :: "(Expression \<Rightarrow> string) \<Rightarrow> Statement \<Rightarrow> Compiler \<Rightarrow> failure + Compiler"
  and Compile_Statements ::
    "(Expression \<Rightarrow> string) \<Rightarrow> Statement list \<Rightarrow> Compiler \<Rightarrow> failure + Compiler"
  and Compile_Expressions ::
    "(Expression \<Rightarrow> string) \<Rightarrow> Expression list \<Rightarrow> Compiler \<Rightarrow> failure + Compiler"
  and Compile_Pairs ::
    "(Expression \<Rightarrow> string) \<Rightarrow> (Expression \<times> Expression) list \<Rightarrow> Compiler \<Rightarrow> failure + Compiler"
where
  "Compile_Statements txt [] c = Inr c"
| "Compile_Statements txt (statement # statements) c =
     seq (Compile_Statement txt statement c) (Compile_Statements txt statements)"

| "Compile_Statement txt (ast_ExpressionStatement expression) c =
     seq (Compile_Expression txt expression c) (emit0 OpPop [])"

| "Compile_Expression txt (ast_InfixExpression operator left right) c =
     (if operator = ''<'' then
        seq (Compile_Expression txt right c) (\<lambda>c1.
        seq (Compile_Expression txt left c1) (emit0 OpGreaterThan []))
      else
        seq (Compile_Expression txt left c) (\<lambda>c1.
        seq (Compile_Expression txt right c1) (\<lambda>c2.
          if operator = ''+'' then emit0 OpAdd [] c2
          else if operator = ''-'' then emit0 OpSub [] c2
          else if operator = ''*'' then emit0 OpMul [] c2
          else if operator = ''/'' then emit0 OpDiv [] c2
          else if operator = ''=='' then emit0 OpEqual [] c2
          else if operator = ''!='' then emit0 OpNotEqual [] c2
          else if operator = ''>'' then emit0 OpGreaterThan [] c2
          else Inl (Error (Errorf ''unknown operator: %s'' [StrArg operator])))))"

| "Compile_Expression txt (ast_PrefixExpression operator right) c =
     seq (Compile_Expression txt right c) (\<lambda>c1.
       if operator = ''!'' then emit0 OpBang [] c1
       else if operator = ''-'' then emit0 OpMinus [] c1
       else Inl (Error (Errorf ''invalid prefix operator: %s'' [StrArg operator])))"

| "Compile_Expression txt (ast_Integer v) c =
     (case addConstant (Integer v) c of (index, c1) \<Rightarrow> emit0 OpConstant [int index] c1)"

| "Compile_Expression txt (ast_String v) c =
     (case addConstant (String v) c of (index, c1) \<Rightarrow> emit0 OpConstant [int index] c1)"

| "Compile_Expression txt (ast_Boolean v) c =
     (if v then emit0 OpTrue [] c else emit0 OpFalse [] c)"

| "Compile_Expression txt (ast_IfExpression condition then' else') c =
     seq (Compile_Expression txt condition c) (\<lambda>c1.
     seq (emit OpJumpNotTrue [- 1] c1) (\<lambda>(jumpNotTrueIndex, c2).
     seq (Compile_Statements txt then' c2) (\<lambda>c3.
     seq (lastInstructionIs OpPop c3) (\<lambda>isPop.
     seq (if isPop then removeLastInstruction c3 else Inr c3) (\<lambda>c4.
       case else' of
         None \<Rightarrow>
           seq (emit OpJump [- 1] c4) (\<lambda>(jumpIndex, c5).
           seq (currentScope c5) (\<lambda>s5.
           seq (emit0 OpNull [] c5) (\<lambda>c6.
           seq (currentScope c6) (\<lambda>s6.
           seq (changeOperand jumpIndex (int (length (instructions s6))) c6)
             (changeOperand jumpNotTrueIndex (int (length (instructions s5))))))))
       | Some else'' \<Rightarrow>
           seq (emit OpJump [- 1] c4) (\<lambda>(jumpIndex, c5).
           seq (currentScope c5) (\<lambda>s5.
           seq (changeOperand jumpNotTrueIndex (int (length (instructions s5))) c5) (\<lambda>c6.
           seq (Compile_Statements txt else'' c6) (\<lambda>c7.
           seq (lastInstructionIs OpPop c7) (\<lambda>isPop'.
           seq (if isPop' then removeLastInstruction c7 else Inr c7) (\<lambda>c8.
           seq (currentScope c8) (\<lambda>s8.
             changeOperand jumpIndex (int (length (instructions s8))) c8))))))))))))"

| "Compile_Statement txt (ast_LetStatement name v) c =
     (case Define name (symbolTable c) of
        None \<Rightarrow> Inl Panicked
      | Some (symbol, tables) \<Rightarrow>
          seq (Compile_Expression txt v (c\<lparr>symbolTable := tables\<rparr>)) (\<lambda>c1.
            if SymbolScope symbol = GlobalScope then emit0 OpSetGlobal [int (Index symbol)] c1
            else emit0 OpSetLocal [int (Index symbol)] c1))"

| "Compile_Expression txt (ast_Identifier v) c =
     (if symbolTable c = [] then Inl Panicked
      else case Resolve v (symbolTable c) of
        None \<Rightarrow> Inl (Error (Errorf ''unable to resolve identifier: %s'' [StrArg v]))
      | Some (symbol, tables) \<Rightarrow> loadSymbol symbol (c\<lparr>symbolTable := tables\<rparr>))"

| "Compile_Expression txt (ast_Array elements) c =
     seq (Compile_Expressions txt elements c) (emit0 OpArray [int (length elements)])"

| "Compile_Expression txt (ast_Hash pairs) c =
     seq (Compile_Pairs txt (sortedPairs txt pairs) c)
       (emit0 OpHash [int (length pairs) * 2])"

| "Compile_Expression txt (ast_IndexExpression array index) c =
     seq (Compile_Expression txt array c) (\<lambda>c1.
     seq (Compile_Expression txt index c1) (emit0 OpIndex []))"

| "Compile_Expression txt (ast_FunctionExpression parameters body) c =
     seq (defineParameters parameters (enterScope c)) (\<lambda>c1.
     seq (Compile_Statements txt body c1) (\<lambda>c2.
     seq (lastInstructionIs OpPop c2) (\<lambda>isPop.
     seq (if isPop then replaceLastPopWithReturn c2 else Inr c2) (\<lambda>c3.
     seq (lastInstructionIs OpReturnValue c3) (\<lambda>isReturnValue.
     seq (if \<not> isReturnValue then emit0 OpReturn [] c3 else Inr c3) (\<lambda>c4.
       case symbolTable c4 of
         [] \<Rightarrow> Inl Panicked
       | t # _ \<Rightarrow>
           seq (leaveScope c4) (\<lambda>(instructions', c5).
           seq (loadSymbols (FreeSymbols t) c5) (\<lambda>c6.
             case addConstant
                    (CompiledFunction instructions' (numDefinitions t) (length parameters)) c6
             of (index, c7) \<Rightarrow>
               emit0 OpClosure [int index, int (length (FreeSymbols t))] c7))))))))"

| "Compile_Statement txt (ast_ReturnStatement result) c =
     seq (Compile_Expression txt result c) (emit0 OpReturnValue [])"

| "Compile_Expression txt (ast_CallExpression function arguments) c =
     seq (Compile_Expression txt function c) (\<lambda>c1.
     seq (Compile_Expressions txt arguments c1) (emit0 OpCall [int (length arguments)]))"

| "Compile_Expressions txt [] c = Inr c"
| "Compile_Expressions txt (e # es) c =
     seq (Compile_Expression txt e c) (Compile_Expressions txt es)"

| "Compile_Pairs txt [] c = Inr c"
| "Compile_Pairs txt ((key, v) # pairs) c =
     seq (Compile_Expression txt key c) (\<lambda>c1.
     seq (Compile_Expression txt v c1) (Compile_Pairs txt pairs))"
  by pat_completeness auto
termination
  by (relation "measure (\<lambda>x. case x of
        Inl (Inl (_, e, _)) \<Rightarrow> size e
      | Inl (Inr (_, s, _)) \<Rightarrow> size s
      | Inr (Inl (_, ss, _)) \<Rightarrow> size_list size ss
      | Inr (Inr (Inl (_, es, _))) \<Rightarrow> size_list size es
      | Inr (Inr (Inr (_, ps, _))) \<Rightarrow> size_list (size_prod size size) ps)")
    (auto simp: size_list_sortedPairs)

text \<open>
  \<^verbatim>\<open>Compile\<close> of an \<^verbatim>\<open>*ast.Program\<close> and of an \<^verbatim>\<open>*ast.BlockStatement\<close>: the same loop over
  the statements.
\<close>

definition Compile_Program :: "(Expression \<Rightarrow> string) \<Rightarrow> Statement list \<Rightarrow> Compiler \<Rightarrow> failure + Compiler"
  where "Compile_Program txt statements c = Compile_Statements txt statements c"

definition Compile_BlockStatement ::
  "(Expression \<Rightarrow> string) \<Rightarrow> Statement list \<Rightarrow> Compiler \<Rightarrow> failure + Compiler"
  where "Compile_BlockStatement txt statements c = Compile_Statements txt statements c"

text \<open>\<^verbatim>\<open>Bytecode()\<close>: the instructions of the current scope and the constants.\<close>

definition Bytecode :: "Compiler \<Rightarrow> failure + (Instructions \<times> Object list)" where
  "Bytecode c = seq (currentScope c) (\<lambda>s. Inr (instructions s, constants c))"

text \<open>
  What \<^verbatim>\<open>emit\<close> makes of the current scope: the instruction appended, the last instruction
  moved to \<^verbatim>\<open>previousInstruction\<close>, the new one recorded with its position.
\<close>

definition emitted :: "Opcode \<Rightarrow> int list \<Rightarrow> CompilationScope \<Rightarrow> CompilationScope" where
  "emitted opcode operands s =
     s\<lparr>CompilationScope.instructions := CompilationScope.instructions s @ Make opcode operands,
       previousInstruction := lastInstruction s,
       lastInstruction := \<lparr>Opcode = opcode, Position = length (CompilationScope.instructions s)\<rparr>\<rparr>"

section \<open>The first compiler\<close>

text \<open>
  The file \<^verbatim>\<open>spike/compiler/compiler.go\<close> holds the compiler as it was first written: one
  sequence of instructions and the constants, no scopes and no symbol table. Its \<^verbatim>\<open>Compile\<close>
  handles a program, an expression statement, an infix expression and an integer literal;
  on every other node the switch matches no case and \<^verbatim>\<open>nil\<close> is returned. \<^verbatim>\<open>emit\<close> drops the
  error of \<^verbatim>\<open>code.Make\<close>. The names carry a 1 where they would clash with those of the
  compiler with scopes.
\<close>

record Compiler1 =
  instructions :: Instructions
  constants :: "Object list"


definition addConstant1 :: "Object \<Rightarrow> Compiler1 \<Rightarrow> nat \<times> Compiler1" where
  "addConstant1 obj c = (length (constants c), c\<lparr>constants := constants c @ [obj]\<rparr>)"

definition emit1 :: "Opcode \<Rightarrow> int list \<Rightarrow> Compiler1 \<Rightarrow> nat \<times> Compiler1" where
  "emit1 opcode operands c =
     (length (instructions c), c\<lparr>instructions := instructions c @ Make opcode operands\<rparr>)"

fun Compile1_Expression :: "Expression \<Rightarrow> Compiler1 \<Rightarrow> error option \<times> Compiler1" where
  "Compile1_Expression (ast_InfixExpression operator left right) c =
     (case Compile1_Expression left c of
        (Some err, c1) \<Rightarrow> (Some err, c1)
      | (None, c1) \<Rightarrow> Compile1_Expression right c1)"
| "Compile1_Expression (ast_Integer v) c =
     (case addConstant1 (Integer v) c of (index, c1) \<Rightarrow>
        (None, snd (emit1 OpConstant [int index] c1)))"
| "Compile1_Expression _ c = (None, c)"

fun Compile1_Statement :: "Statement \<Rightarrow> Compiler1 \<Rightarrow> error option \<times> Compiler1" where
  "Compile1_Statement (ast_ExpressionStatement expression) c = Compile1_Expression expression c"
| "Compile1_Statement _ c = (None, c)"

fun Compile1_Program :: "Statement list \<Rightarrow> Compiler1 \<Rightarrow> error option \<times> Compiler1" where
  "Compile1_Program [] c = (None, c)"
| "Compile1_Program (statement # statements) c =
     (case Compile1_Statement statement c of
        (Some err, c1) \<Rightarrow> (Some err, c1)
      | (None, c1) \<Rightarrow> Compile1_Program statements c1)"


section \<open>Textual form\<close>

text \<open>
  Modelled from the spec: the \<^verbatim>\<open>String\<close> methods of the expression nodes are not among the
  sources. The parser tests fix the text of an identifier (its name), of an integer literal
  (decimal), of a boolean literal, and of prefix and infix expressions (in parentheses, an
  infix operator between two spaces). The text of the other nodes is fixed by neither the
  tests nor the spec and is left empty here; \<^verbatim>\<open>Compile\<close> takes the textual form as a
  parameter, and only the texts of literals are used below.
\<close>

fun decimal :: "nat \<Rightarrow> string" where
  "decimal n = (if n < 10 then [''0123456789'' ! n]
                else decimal (n div 10) @ [''0123456789'' ! (n mod 10)])"

declare decimal.simps [simp del]

fun Expression_String :: "Expression \<Rightarrow> string" where
  "Expression_String (ast_Identifier v) = v"
| "Expression_String (ast_Integer v) =
     (if sint v < 0 then ''-'' @ decimal (nat (- sint v)) else decimal (nat (sint v)))"
| "Expression_String (ast_Boolean v) = (if v then ''true'' else ''false'')"
| "Expression_String (ast_PrefixExpression operator right) =
     ''('' @ operator @ Expression_String right @ '')''"
| "Expression_String (ast_InfixExpression operator left right) =
     ''('' @ Expression_String left @ '' '' @ operator @ '' '' @ Expression_String right @ '')''"
| "Expression_String _ = []"

section \<open>Virtual machine\<close>

definition StackSize :: nat where
  "StackSize = 2048"

text \<open>
  The struct \<^verbatim>\<open>VM\<close>. The operand stack is the slice of \<^verbatim>\<open>StackSize\<close> slots that \<^verbatim>\<open>New\<close>
  allocates and nothing reallocates: a map from the slot index to its content, \<open>None\<close> being
  the nil interface; reading or writing a slot at \<open>StackSize\<close> or beyond is out of range.
  \<^verbatim>\<open>sp\<close> never goes below 0, because \<^verbatim>\<open>pop\<close> reads \<^verbatim>\<open>stack[sp-1]\<close> before it decrements.
\<close>

record VM =
  constants :: "Object list"
  instructions :: Instructions
  stack :: "nat \<Rightarrow> Object option"
  sp :: nat

text \<open>
  A method of the machine either returns a value and leaves the machine in a new state, or
  panics (an index out of range, a failed type assertion, a nil dereference, an integer
  division by zero).
\<close>

datatype 'a res = Return 'a VM | Panic

definition New :: "Instructions \<Rightarrow> Object list \<Rightarrow> VM" where
  "New ins cs = \<lparr>constants = cs, instructions = ins, stack = (\<lambda>_. None), sp = 0\<rparr>"

definition push :: "Object option \<Rightarrow> VM \<Rightarrow> error option res" where
  "push o' vm =
     (if sp vm \<ge> StackSize then Return (Some (errors_New ''stack overflow'')) vm
      else Return None (vm\<lparr>stack := (stack vm)(sp vm := o'), sp := sp vm + 1\<rparr>))"

definition pop :: "VM \<Rightarrow> Object option res" where
  "pop vm =
     (if sp vm = 0 \<or> sp vm - 1 \<ge> StackSize then Panic
      else Return (stack vm (sp vm - 1)) (vm\<lparr>sp := sp vm - 1\<rparr>))"

definition True_obj :: Object where "True_obj = Boolean True"
definition False_obj :: Object where "False_obj = Boolean False"

definition nativeBoolToBoolean :: "bool \<Rightarrow> Object" where
  "nativeBoolToBoolean nativeBool = (if nativeBool then True_obj else False_obj)"

text \<open>Go's \<^verbatim>\<open>/\<close> on \<^verbatim>\<open>int64\<close>: the quotient truncated towards zero, wrapped to 64 bits.\<close>

definition int64_quo :: "64 word \<Rightarrow> 64 word \<Rightarrow> 64 word" where
  "int64_quo a b = word_of_int (sgn (sint a) * sgn (sint b) * (\<bar>sint a\<bar> div \<bar>sint b\<bar>))"

definition executeBinaryIntegerOperation :: "Opcode \<Rightarrow> VM \<Rightarrow> error option res" where
  "executeBinaryIntegerOperation opcode vm =
     (case pop vm of Panic \<Rightarrow> Panic
      | Return right vm1 \<Rightarrow>
     (case pop vm1 of Panic \<Rightarrow> Panic
      | Return left vm2 \<Rightarrow>
     (case left of
        Some (Integer leftValue) \<Rightarrow>
          (case right of
             Some (Integer rightValue) \<Rightarrow>
               if opcode = OpAdd then push (Some (Integer (leftValue + rightValue))) vm2
               else if opcode = OpSub then push (Some (Integer (leftValue - rightValue))) vm2
               else if opcode = OpMul then push (Some (Integer (leftValue * rightValue))) vm2
               else if opcode = OpDiv then
                 (if rightValue = 0 then Panic
                  else push (Some (Integer (int64_quo leftValue rightValue))) vm2)
               else push (Some (Integer 0)) vm2
           | _ \<Rightarrow> Panic)
      | _ \<Rightarrow> Panic)))"

definition executeIntegerComparison ::
  "Object \<Rightarrow> Object \<Rightarrow> Opcode \<Rightarrow> VM \<Rightarrow> error option res" where
  "executeIntegerComparison left right op vm =
     (case left of
        Integer leftInt \<Rightarrow>
          (case right of
             Integer rightInt \<Rightarrow>
               if op = OpEqual then push (Some (nativeBoolToBoolean (leftInt = rightInt))) vm
               else if op = OpNotEqual then
                 push (Some (nativeBoolToBoolean (leftInt \<noteq> rightInt))) vm
               else if op = OpGreaterThan then
                 push (Some (nativeBoolToBoolean (sint leftInt > sint rightInt))) vm
               else Return (Some (Errorf ''unexpected operation: %d'' [OpArg op])) vm
           | _ \<Rightarrow> Panic)
      | _ \<Rightarrow> Panic)"

definition executeBooleanComparison ::
  "Object \<Rightarrow> Object \<Rightarrow> Opcode \<Rightarrow> VM \<Rightarrow> error option res" where
  "executeBooleanComparison left right op vm =
     (case left of
        Boolean leftBool \<Rightarrow>
          (case right of
             Boolean rightBool \<Rightarrow>
               if op = OpEqual then push (Some (nativeBoolToBoolean (leftBool = rightBool))) vm
               else if op = OpNotEqual then
                 push (Some (nativeBoolToBoolean (leftBool \<noteq> rightBool))) vm
               else Return (Some (Errorf ''unexpected operation: %d'' [OpArg op])) vm
           | _ \<Rightarrow> Panic)
      | _ \<Rightarrow> Panic)"

definition executeComparison :: "Opcode \<Rightarrow> VM \<Rightarrow> error option res" where
  "executeComparison op vm =
     (case pop vm of Panic \<Rightarrow> Panic
      | Return right' vm1 \<Rightarrow>
     (case pop vm1 of Panic \<Rightarrow> Panic
      | Return left' vm2 \<Rightarrow>
     (case right' of None \<Rightarrow> Panic
      | Some right \<Rightarrow>
     (case left' of None \<Rightarrow> Panic
      | Some left \<Rightarrow>
        if Type right \<noteq> Type left then
          Return (Some (Errorf ''both operands must have same type, had: %s and %s''
                          [TypeArg (Type left), TypeArg (Type right)])) vm2
        else if Type right = IntegerType then executeIntegerComparison left right op vm2
        else if Type right = BooleanType then executeBooleanComparison left right op vm2
        else Return (Some (Errorf ''unable to compare variables of type %s and %s''
                             [TypeArg (Type left), TypeArg (Type right)])) vm2))))"

definition LastPoppedStackElement :: "VM \<Rightarrow> Object option option" where
  "LastPoppedStackElement vm = (if sp vm \<ge> StackSize then None else Some (stack vm (sp vm)))"

text \<open>
  \<^verbatim>\<open>binary.BigEndian.Uint16(b[off:])\<close>: it panics (\<open>None\<close>) unless two bytes are there.
\<close>

definition Uint16_at :: "Instructions \<Rightarrow> nat \<Rightarrow> nat option" where
  "Uint16_at b off =
     (if off + 2 \<le> length b then Some (unat (b ! off) * 256 + unat (b ! (off + 1))) else None)"

text \<open>
  The body of the loop of \<^verbatim>\<open>Run\<close> at instruction pointer \<open>ip\<close>, which is below the length of
  the instructions. It returns the error with which \<^verbatim>\<open>Run\<close> returns from inside the loop
  (\<open>None\<close>: the loop goes on) and the instruction pointer as the body leaves it, before the
  \<^verbatim>\<open>ip++\<close> of the loop header. A byte that matches no case of the \<^verbatim>\<open>switch\<close> does nothing.
\<close>

definition Run_body :: "nat \<Rightarrow> VM \<Rightarrow> (error option \<times> nat) res" where
  "Run_body ip vm =
     (let op = instructions vm ! ip in
      if op = OpConstant then
        (case Uint16_at (instructions vm) (ip + 1) of
           None \<Rightarrow> Panic
         | Some index \<Rightarrow>
             if index \<ge> length (constants vm) then Panic
             else (case push (Some (constants vm ! index)) vm of
                     Panic \<Rightarrow> Panic
                   | Return err vm' \<Rightarrow> Return (err, ip + 2) vm'))
      else if op \<in> {OpAdd, OpSub, OpMul, OpDiv} then
        (case executeBinaryIntegerOperation op vm of
           Panic \<Rightarrow> Panic
         | Return err vm' \<Rightarrow> Return (err, ip) vm')
      else if op \<in> {OpEqual, OpNotEqual, OpGreaterThan} then
        (case executeComparison op vm of
           Panic \<Rightarrow> Panic
         | Return err vm' \<Rightarrow> Return (err, ip) vm')
      else if op = OpTrue then
        (case push (Some True_obj) vm of
           Panic \<Rightarrow> Panic
         | Return err vm' \<Rightarrow> Return (err, ip) vm')
      else if op = OpFalse then
        (case push (Some False_obj) vm of
           Panic \<Rightarrow> Panic
         | Return err vm' \<Rightarrow> Return (err, ip) vm')
      else if op = OpPop then
        (case pop vm of
           Panic \<Rightarrow> Panic
         | Return _ vm' \<Rightarrow> Return (None, ip) vm')
      else Return (None, ip) vm)"

lemma push_frame:
  "push x vm = Return e vm' \<Longrightarrow>
     instructions vm' = instructions vm \<and> constants vm' = constants vm"
  by (auto simp: push_def split: if_splits)

lemma pop_frame:
  "pop vm = Return x vm' \<Longrightarrow>
     instructions vm' = instructions vm \<and> constants vm' = constants vm"
  by (auto simp: pop_def split: if_splits)

lemma executeBinaryIntegerOperation_frame:
  "executeBinaryIntegerOperation op vm = Return e vm' \<Longrightarrow>
     instructions vm' = instructions vm \<and> constants vm' = constants vm"
  unfolding executeBinaryIntegerOperation_def
  by (auto split: res.splits option.splits Object.splits if_splits
      dest!: push_frame pop_frame)

lemma executeComparison_frame:
  "executeComparison op vm = Return e vm' \<Longrightarrow>
     instructions vm' = instructions vm \<and> constants vm' = constants vm"
  unfolding executeComparison_def executeIntegerComparison_def executeBooleanComparison_def
  by (auto split: res.splits option.splits Object.splits if_splits
      dest!: push_frame pop_frame)

lemma Run_body_frame:
  "Run_body ip vm = Return (e, ip') vm' \<Longrightarrow>
     instructions vm' = instructions vm \<and> constants vm' = constants vm \<and> ip \<le> ip'"
  unfolding Run_body_def Let_def
  by (auto split: res.splits option.splits if_splits
      dest!: push_frame pop_frame executeBinaryIntegerOperation_frame executeComparison_frame)

text \<open>
  The loop \<^verbatim>\<open>for ip := 0; ip < len(vm.instructions); ip++\<close> of \<^verbatim>\<open>Run\<close>, from a given
  instruction pointer on.
\<close>

function Run_from :: "nat \<Rightarrow> VM \<Rightarrow> error option res" where
  "Run_from ip vm =
     (if ip < length (instructions vm) then
        (case Run_body ip vm of
           Panic \<Rightarrow> Panic
         | Return (Some err, ip') vm' \<Rightarrow> Return (Some err) vm'
         | Return (None, ip') vm' \<Rightarrow> Run_from (ip' + 1) vm')
      else Return None vm)"
  by pat_completeness auto
termination
proof (relation "measure (\<lambda>(ip, vm). length (instructions vm) - ip)", goal_cases)
  case 1
  show ?case by simp
next
  case (2 ip vm x1 vm' e ip')
  then have "Run_body ip vm = Return (e, ip') vm'" by simp
  from Run_body_frame [OF this] have "ip \<le> ip'" and "instructions vm' = instructions vm"
    by simp_all
  with 2(1) show ?case by simp
qed

declare Run_from.simps [simp del]

definition Run :: "VM \<Rightarrow> error option res" where
  "Run vm = Run_from 0 vm"

section \<open>Expression statements on the machine\<close>

text \<open>
  The expressions built from integer, boolean and string literals with prefix and infix
  operators.
\<close>

fun literals_and_operators :: "Expression \<Rightarrow> bool" where
  "literals_and_operators (ast_Integer v) = True"
| "literals_and_operators (ast_Boolean v) = True"
| "literals_and_operators (ast_String v) = True"
| "literals_and_operators (ast_PrefixExpression operator right) = literals_and_operators right"
| "literals_and_operators (ast_InfixExpression operator left right) =
     (literals_and_operators left \<and> literals_and_operators right)"
| "literals_and_operators _ = False"

text \<open>
  The opcodes that \<^verbatim>\<open>Compile\<close> emits for an infix operator.
\<close>

definition infix_opcodes :: "Opcode set" where
  "infix_opcodes = {OpAdd, OpSub, OpMul, OpDiv, OpEqual, OpNotEqual, OpGreaterThan}"

text \<open>
  A sequence of instructions that, wherever it stands in the instructions of a machine with
  at least \<open>k\<close> constants, either makes \<^verbatim>\<open>Run\<close> panic or return an error, or is run to its end
  and leaves one more value on the stack, in the slot at the old stack pointer, the slots
  below untouched.
\<close>

definition pushes_one :: "Instructions \<Rightarrow> nat \<Rightarrow> bool" where
  "pushes_one code k \<longleftrightarrow>
     (\<forall>vm pre post.
        VM.instructions vm = pre @ code @ post \<and> k \<le> length (VM.constants vm) \<longrightarrow>
        Run_from (length pre) vm = Panic \<or>
        (\<exists>e vm'. Run_from (length pre) vm = Return (Some e) vm') \<or>
        (\<exists>vm'. Run_from (length pre) vm = Run_from (length pre + length code) vm' \<and>
               VM.instructions vm' = VM.instructions vm \<and> VM.constants vm' = VM.constants vm \<and>
               sp vm' = sp vm + 1 \<and> sp vm < StackSize \<and>
               (\<exists>v. stack vm' (sp vm) = Some v) \<and>
               (\<forall>i < sp vm. stack vm' i = stack vm i)))"

section \<open>Properties of the virtual machine\<close>

lemma Run_from_error:
  "ip < length (instructions vm) \<Longrightarrow> Run_body ip vm = Return (Some e, ip') vm' \<Longrightarrow>
     Run_from ip vm = Return (Some e) vm'"
  by (subst Run_from.simps) simp

lemma Run_from_next:
  "ip < length (instructions vm) \<Longrightarrow> Run_body ip vm = Return (None, ip') vm' \<Longrightarrow>
     Run_from ip vm = Run_from (ip' + 1) vm'"
  by (subst Run_from.simps) simp

lemma Run_from_Panic:
  "ip < length (instructions vm) \<Longrightarrow> Run_body ip vm = Panic \<Longrightarrow> Run_from ip vm = Panic"
  by (subst Run_from.simps) simp

lemma Run_from_end:
  "\<not> ip < length (instructions vm) \<Longrightarrow> Run_from ip vm = Return None vm"
  by (subst Run_from.simps) simp

text \<open>
  Claim C9. A push with the stack pointer at \<open>StackSize\<close> (2048) or above returns the error
  "stack overflow" and leaves the machine as it was, and \<^verbatim>\<open>Run\<close> returns with that error
  at every instruction that pushes onto a full stack (\<^verbatim>\<open>True\<close>, \<^verbatim>\<open>False\<close>, and
  \<^verbatim>\<open>Constant\<close> with a valid operand; the arithmetic and comparison instructions pop two
  slots before they push). Below the capacity the value is stored at \<^verbatim>\<open>stack[sp]\<close> and
  \<^verbatim>\<open>sp\<close> grows by one.
\<close>

theorem push_stack_overflow:
  "(StackSize \<le> sp vm \<longrightarrow>
      push x vm = Return (Some (errors_New ''stack overflow'')) vm \<and>
      (ip < length (instructions vm) \<and>
       (instructions vm ! ip = OpTrue \<or> instructions vm ! ip = OpFalse \<or>
        instructions vm ! ip = OpConstant \<and>
          (\<exists>index. Uint16_at (instructions vm) (ip + 1) = Some index \<and>
             index < length (constants vm))) \<longrightarrow>
       Run_from ip vm = Return (Some (errors_New ''stack overflow'')) vm)) \<and>
   (sp vm < StackSize \<longrightarrow>
      push x vm = Return None (vm\<lparr>stack := (stack vm)(sp vm := x), sp := sp vm + 1\<rparr>))"
proof (intro conjI impI)
  assume "StackSize \<le> sp vm"
  then show "push x vm = Return (Some (errors_New ''stack overflow'')) vm"
    by (simp add: push_def)
next
  assume "sp vm < StackSize"
  then show "push x vm = Return None (vm\<lparr>stack := (stack vm)(sp vm := x), sp := sp vm + 1\<rparr>)"
    by (simp add: push_def)
next
  assume full: "StackSize \<le> sp vm"
    and site: "ip < length (instructions vm) \<and>
       (instructions vm ! ip = OpTrue \<or> instructions vm ! ip = OpFalse \<or>
        instructions vm ! ip = OpConstant \<and>
          (\<exists>index. Uint16_at (instructions vm) (ip + 1) = Some index \<and>
             index < length (constants vm)))"
  from full have ov: "\<And>y. push y vm = Return (Some (errors_New ''stack overflow'')) vm"
    by (simp add: push_def)
  from site have "\<exists>ip'. Run_body ip vm = Return (Some (errors_New ''stack overflow''), ip') vm"
    by (auto simp: Run_body_def Let_def ov Opcode_defs)
  with site show "Run_from ip vm = Return (Some (errors_New ''stack overflow'')) vm"
    by (auto simp: Run_from_error)
qed

theorem push_stack_overflow_witness:
  "push (Some True_obj) (New [OpTrue] []\<lparr>sp := 2048\<rparr>)
     = Return (Some (errors_New ''stack overflow'')) (New [OpTrue] []\<lparr>sp := 2048\<rparr>) \<and>
   Run_from 0 (New [OpTrue] []\<lparr>sp := 2048\<rparr>)
     = Return (Some (errors_New ''stack overflow'')) (New [OpTrue] []\<lparr>sp := 2048\<rparr>) \<and>
   push (Some True_obj) (New [OpTrue] [])
     = Return None (New [OpTrue] []\<lparr>stack := (\<lambda>_. None)(0 := Some True_obj), sp := 1\<rparr>)"
  using push_stack_overflow [of "New [OpTrue] []\<lparr>sp := 2048\<rparr>" "Some True_obj" 0]
    push_stack_overflow [of "New [OpTrue] []" "Some True_obj" 0]
  by (simp add: New_def StackSize_def)

text \<open>
  Claim C10. At any opcode byte other than \<^verbatim>\<open>Constant\<close>, \<^verbatim>\<open>Add\<close>, \<^verbatim>\<open>Sub\<close>, \<^verbatim>\<open>Mul\<close>,
  \<^verbatim>\<open>Div\<close>, \<^verbatim>\<open>Equal\<close>, \<^verbatim>\<open>NotEqual\<close>, \<^verbatim>\<open>GreaterThan\<close>, \<^verbatim>\<open>True\<close>, \<^verbatim>\<open>False\<close> and
  \<^verbatim>\<open>Pop\<close>, the loop body of \<^verbatim>\<open>Run\<close> changes nothing, returns no error, and the run
  continues at the next byte. The witness runs \<^verbatim>\<open>GetLocal 6\<close>: the opcode is skipped and its
  operand byte 6 is then executed as \<^verbatim>\<open>True\<close>.
\<close>

theorem Run_skips_unhandled_opcode:
  assumes "ip < length (instructions vm)"
    and "instructions vm ! ip \<notin> {OpConstant, OpAdd, OpSub, OpMul, OpDiv, OpEqual, OpNotEqual,
           OpGreaterThan, OpTrue, OpFalse, OpPop}"
  shows "Run_body ip vm = Return (None, ip) vm \<and> Run_from ip vm = Run_from (ip + 1) vm"
proof -
  from assms(2) have body: "Run_body ip vm = Return (None, ip) vm"
    by (simp add: Run_body_def Let_def)
  with assms(1) show ?thesis
    by (simp add: Run_from_next)
qed

theorem Run_skips_unhandled_opcode_witness:
  "Run_body 0 (New (Make OpGetLocal [6]) []) = Return (None, 0) (New (Make OpGetLocal [6]) []) \<and>
   Run (New (Make OpGetLocal [6]) [])
     = Return None (New (Make OpGetLocal [6]) []
         \<lparr>stack := (\<lambda>_. None)(0 := Some True_obj), sp := 1\<rparr>)"
proof -
  let ?vm = "New (Make OpGetLocal [6]) []"
  let ?vm' = "?vm\<lparr>stack := (\<lambda>_. None)(0 := Some True_obj), sp := 1\<rparr>"
  note ev = New_def Make_def OperandWidths_def putOperand_def Opcode_defs
  have h1: "0 < length (instructions ?vm)" by (simp add: ev)
  have h2: "instructions ?vm ! 0 \<notin> {OpConstant, OpAdd, OpSub, OpMul, OpDiv, OpEqual, OpNotEqual,
           OpGreaterThan, OpTrue, OpFalse, OpPop}"
    by (simp add: ev)
  note step = Run_skips_unhandled_opcode [OF h1 h2]
  have b1: "Run_body 1 ?vm = Return (None, 1) ?vm'"
    by (simp add: Run_body_def Let_def push_def StackSize_def ev)
  have "Run_from 1 ?vm = Run_from (1 + 1) ?vm'"
    by (rule Run_from_next [OF _ b1]) (simp add: ev)
  also have "\<dots> = Return None ?vm'"
    by (rule Run_from_end) (simp add: ev)
  finally show ?thesis using step by (simp add: Run_def)
qed

lemma pop_top:
  "0 < sp vm \<Longrightarrow> sp vm \<le> StackSize \<Longrightarrow>
     pop vm = Return (stack vm (sp vm - 1)) (vm\<lparr>sp := sp vm - 1\<rparr>)"
  by (auto simp: pop_def)

lemma pop_pop:
  assumes "2 \<le> sp vm" and "sp vm \<le> StackSize"
  shows "(case pop vm of Panic \<Rightarrow> Panic
          | Return right vm1 \<Rightarrow>
              (case pop vm1 of Panic \<Rightarrow> Panic | Return left vm2 \<Rightarrow> f right left vm2))
         = f (stack vm (sp vm - 1)) (stack vm (sp vm - 2)) (vm\<lparr>sp := sp vm - 2\<rparr>)"
proof -
  have p1: "pop vm = Return (stack vm (sp vm - 1)) (vm\<lparr>sp := sp vm - 1\<rparr>)"
    using assms by (simp add: pop_top)
  have "pop (vm\<lparr>sp := sp vm - 1\<rparr>)
          = Return (stack vm (sp vm - 1 - 1)) (vm\<lparr>sp := sp vm - 1 - 1\<rparr>)"
    using assms by (simp add: pop_def)
  moreover have "sp vm - 1 - 1 = sp vm - 2" by simp
  ultimately have p2: "pop (vm\<lparr>sp := sp vm - 1\<rparr>)
          = Return (stack vm (sp vm - 2)) (vm\<lparr>sp := sp vm - 2\<rparr>)"
    by simp
  show ?thesis unfolding p1 res.case p2 ..
qed

text \<open>
  The arithmetic instructions on two Integers: with a divisor other than zero for \<^verbatim>\<open>Div\<close>,
  the two operands are popped, the Integer result of the 64-bit operation is pushed in their
  place and no error is returned.
\<close>

lemma executeBinaryIntegerOperation_integers:
  assumes "2 \<le> sp vm" and "sp vm \<le> StackSize"
    and "stack vm (sp vm - 1) = Some (Integer rightValue)"
    and "stack vm (sp vm - 2) = Some (Integer leftValue)"
    and "opcode \<in> {OpAdd, OpSub, OpMul, OpDiv}"
    and "opcode = OpDiv \<longrightarrow> rightValue \<noteq> 0"
  shows "executeBinaryIntegerOperation opcode vm =
           Return None (vm\<lparr>stack := (stack vm)(sp vm - 2 := Some (Integer
               (if opcode = OpAdd then leftValue + rightValue
                else if opcode = OpSub then leftValue - rightValue
                else if opcode = OpMul then leftValue * rightValue
                else int64_quo leftValue rightValue))),
             sp := sp vm - 1\<rparr>)"
proof -
  have room: "\<not> StackSize \<le> sp vm - 2" and again: "Suc (sp vm - 2) = sp vm - 1"
    using assms(1,2) by simp_all
  from assms(5,6) show ?thesis
    unfolding executeBinaryIntegerOperation_def pop_pop [OF assms(1,2)] assms(3,4)
    by (auto simp: push_def room again Opcode_defs)
qed

lemma executeBinaryIntegerOperation_integers_example:
  "executeBinaryIntegerOperation OpDiv
     (New [] []\<lparr>stack := (\<lambda>_. None)(0 := Some (Integer (- 7)), 1 := Some (Integer 2)), sp := 2\<rparr>)
   = Return None
       (New [] []\<lparr>stack := (\<lambda>_. None)(0 := Some (Integer (- 3)), 1 := Some (Integer 2)),
          sp := 1\<rparr>)"
proof -
  let ?vm = "New [] []\<lparr>stack := (\<lambda>_. None)(0 := Some (Integer (- 7)), 1 := Some (Integer 2)),
    sp := 2\<rparr>"
  have q: "int64_quo (- 7) 2 = - 3"
    by (simp add: int64_quo_def)
  have "executeBinaryIntegerOperation OpDiv ?vm =
           Return None (?vm\<lparr>stack := (stack ?vm)(sp ?vm - 2 := Some (Integer
               (if OpDiv = OpAdd then - 7 + 2
                else if OpDiv = OpSub then - 7 - 2
                else if OpDiv = OpMul then - 7 * 2
                else int64_quo (- 7) 2))),
             sp := sp ?vm - 1\<rparr>)"
    by (rule executeBinaryIntegerOperation_integers) (simp_all add: New_def StackSize_def)
  then show ?thesis
    by (simp add: q New_def Opcode_defs fun_upd_twist)
qed

text \<open>
  On any other operands the unchecked assertions \<^verbatim>\<open>left.(*object.Integer)\<close> and
  \<^verbatim>\<open>right.(*object.Integer)\<close> panic, and so does the division by zero.
\<close>

lemma executeBinaryIntegerOperation_not_integers:
  assumes "2 \<le> sp vm" and "sp vm \<le> StackSize"
    and "(\<forall>v. stack vm (sp vm - 1) \<noteq> Some (Integer v)) \<or>
         (\<forall>v. stack vm (sp vm - 2) \<noteq> Some (Integer v))"
  shows "executeBinaryIntegerOperation opcode vm = Panic"
  using assms(3)
  unfolding executeBinaryIntegerOperation_def pop_pop [OF assms(1,2)]
  by (auto split: option.splits Object.splits)

lemma executeBinaryIntegerOperation_zero_divisor:
  assumes "2 \<le> sp vm" and "sp vm \<le> StackSize"
    and "stack vm (sp vm - 1) = Some (Integer 0)"
    and "stack vm (sp vm - 2) = Some (Integer leftValue)"
  shows "executeBinaryIntegerOperation OpDiv vm = Panic"
  unfolding executeBinaryIntegerOperation_def pop_pop [OF assms(1,2)] assms(3,4)
  by (simp add: Opcode_defs)

text \<open>
  Claim C3. The machine is to return the error "unsupported types for binary operation" when
  the operands of \<^verbatim>\<open>Add\<close>, \<^verbatim>\<open>Sub\<close>, \<^verbatim>\<open>Mul\<close> or \<^verbatim>\<open>Div\<close> are not two Integers, and to
  concatenate two Strings under \<^verbatim>\<open>Add\<close>. It does neither: the program \<^verbatim>\<open>1 + true\<close> returns
  no error and \<^verbatim>\<open>"foo" + "bar"\<close> pushes no String, both runs panic. On the operands of
  \<^verbatim>\<open>1 + true\<close> the comparison \<^verbatim>\<open>1 == true\<close> does return its type error.
\<close>

theorem binary_operation_type_mismatch_panics:
  "Run (New (Make OpConstant [0] @ Make OpTrue [] @ Make OpAdd []) [Integer 1]) = Panic \<and>
   Run (New (Make OpConstant [0] @ Make OpConstant [1] @ Make OpAdd [])
          [String ''foo'', String ''bar'']) = Panic \<and>
   Run (New (Make OpConstant [0] @ Make OpTrue [] @ Make OpEqual []) [Integer 1])
     = Return (Some (Errorf ''both operands must have same type, had: %s and %s''
                       [TypeArg IntegerType, TypeArg BooleanType]))
         (New (Make OpConstant [0] @ Make OpTrue [] @ Make OpEqual []) [Integer 1]
          \<lparr>stack := (\<lambda>_. None)(0 := Some (Integer 1), 1 := Some True_obj), sp := 0\<rparr>)"
proof -
  note ev = New_def Make_def OperandWidths_def putOperand_def Opcode_defs Run_body_def Let_def
    Uint16_at_def push_def pop_def StackSize_def executeBinaryIntegerOperation_def
    executeComparison_def True_obj_def
  have "Run_from 0 (New (Make OpConstant [0] @ Make OpTrue [] @ Make OpAdd [])
      [Integer 1]) = Panic"
    by (simp add: Run_from.simps ev)
  moreover have "Run_from 0 (New (Make OpConstant [0] @ Make OpConstant [1] @ Make OpAdd [])
          [String ''foo'', String ''bar'']) = Panic"
    by (simp add: Run_from.simps ev)
  moreover have "Run_from 0 (New (Make OpConstant [0] @ Make OpTrue [] @ Make OpEqual [])
      [Integer 1])
     = Return (Some (Errorf ''both operands must have same type, had: %s and %s''
                       [TypeArg IntegerType, TypeArg BooleanType]))
         (New (Make OpConstant [0] @ Make OpTrue [] @ Make OpEqual []) [Integer 1]
          \<lparr>stack := (\<lambda>_. None)(0 := Some (Integer 1), 1 := Some True_obj), sp := 0\<rparr>)"
    by (simp add: Run_from.simps ev)
  ultimately show ?thesis by (simp add: Run_def)
qed

text \<open>
  Claim C4, as stated, fails: two operands of the same type are compared only when they are
  Integers or Booleans. For two equal Strings \<^verbatim>\<open>Equal\<close> pushes no Boolean; the run returns the
  error "unable to compare variables of type ... and ...".
\<close>

theorem comparison_counterexample:
  "Run (New (Make OpConstant [0] @ Make OpConstant [1] @ Make OpEqual [])
          [String ''a'', String ''a''])
   = Return (Some (Errorf ''unable to compare variables of type %s and %s''
                     [TypeArg StringType, TypeArg StringType]))
       (New (Make OpConstant [0] @ Make OpConstant [1] @ Make OpEqual [])
          [String ''a'', String ''a'']
        \<lparr>stack := (\<lambda>_. None)(0 := Some (String ''a''), 1 := Some (String ''a'')), sp := 0\<rparr>)"
  by (simp add: Run_def Run_from.simps New_def Make_def OperandWidths_def putOperand_def
      Opcode_defs Run_body_def Let_def Uint16_at_def push_def pop_def StackSize_def
      executeComparison_def)

text \<open>
  Claim C4, amended. With two non-nil operands on top of the stack and one of the opcodes
  \<^verbatim>\<open>Equal\<close>, \<^verbatim>\<open>NotEqual\<close>, \<^verbatim>\<open>GreaterThan\<close>: operands of different types give the error
  "both operands must have same type, had: l and r"; two Integers give the Boolean result of
  equality, inequality or (signed) greater-than; two Booleans give the Boolean result of
  equality or inequality, and "unexpected operation: op" for \<^verbatim>\<open>GreaterThan\<close>; two operands
  of one and the same other type give the error "unable to compare variables of type l and r".
  In the error cases both operands have been popped and nothing is pushed.
\<close>

theorem executeComparison_cases:
  assumes "2 \<le> sp vm" and "sp vm \<le> StackSize"
    and "stack vm (sp vm - 1) = Some right"
    and "stack vm (sp vm - 2) = Some left"
    and "op \<in> {OpEqual, OpNotEqual, OpGreaterThan}"
  shows "(Type left \<noteq> Type right \<longrightarrow>
            executeComparison op vm =
              Return (Some (Errorf ''both operands must have same type, had: %s and %s''
                              [TypeArg (Type left), TypeArg (Type right)]))
                (vm\<lparr>sp := sp vm - 2\<rparr>)) \<and>
         (\<forall>a b. left = Integer a \<and> right = Integer b \<longrightarrow>
            executeComparison op vm =
              Return None (vm\<lparr>stack := (stack vm)(sp vm - 2 := Some (Boolean
                  (if op = OpEqual then a = b
                   else if op = OpNotEqual then a \<noteq> b
                   else sint a > sint b))),
                sp := sp vm - 1\<rparr>)) \<and>
         (\<forall>a b. left = Boolean a \<and> right = Boolean b \<longrightarrow>
            executeComparison op vm =
              (if op = OpGreaterThan then
                 Return (Some (Errorf ''unexpected operation: %d'' [OpArg op]))
                   (vm\<lparr>sp := sp vm - 2\<rparr>)
               else
                 Return None (vm\<lparr>stack := (stack vm)(sp vm - 2 := Some (Boolean
                     (if op = OpEqual then a = b else a \<noteq> b))),
                   sp := sp vm - 1\<rparr>))) \<and>
         (Type left = Type right \<and> Type left \<noteq> IntegerType \<and> Type left \<noteq> BooleanType \<longrightarrow>
            executeComparison op vm =
              Return (Some (Errorf ''unable to compare variables of type %s and %s''
                              [TypeArg (Type left), TypeArg (Type right)]))
                (vm\<lparr>sp := sp vm - 2\<rparr>))"
proof -
  have room: "\<not> StackSize \<le> sp vm - 2" and again: "Suc (sp vm - 2) = sp vm - 1"
    using assms(1,2) by simp_all
  note unf = executeComparison_def pop_pop [OF assms(1,2)] assms(3,4) option.case
  have c1: "Type left \<noteq> Type right \<Longrightarrow>
            executeComparison op vm =
              Return (Some (Errorf ''both operands must have same type, had: %s and %s''
                              [TypeArg (Type left), TypeArg (Type right)]))
                (vm\<lparr>sp := sp vm - 2\<rparr>)"
    unfolding unf by auto
  have c2: "left = Integer a \<Longrightarrow> right = Integer b \<Longrightarrow>
            executeComparison op vm =
              Return None (vm\<lparr>stack := (stack vm)(sp vm - 2 := Some (Boolean
                  (if op = OpEqual then a = b
                   else if op = OpNotEqual then a \<noteq> b
                   else sint a > sint b))),
                sp := sp vm - 1\<rparr>)" for a b
    using assms(5) unfolding unf
    by (auto simp: executeIntegerComparison_def push_def room again Opcode_defs
        nativeBoolToBoolean_def True_obj_def False_obj_def)
  have c3: "left = Boolean a \<Longrightarrow> right = Boolean b \<Longrightarrow>
            executeComparison op vm =
              (if op = OpGreaterThan then
                 Return (Some (Errorf ''unexpected operation: %d'' [OpArg op]))
                   (vm\<lparr>sp := sp vm - 2\<rparr>)
               else
                 Return None (vm\<lparr>stack := (stack vm)(sp vm - 2 := Some (Boolean
                     (if op = OpEqual then a = b else a \<noteq> b))),
                   sp := sp vm - 1\<rparr>))" for a b
    using assms(5) unfolding unf
    by (auto simp: executeBooleanComparison_def push_def room again Opcode_defs
        nativeBoolToBoolean_def True_obj_def False_obj_def)
  have c4: "Type left = Type right \<Longrightarrow> Type left \<noteq> IntegerType \<Longrightarrow>
      Type left \<noteq> BooleanType \<Longrightarrow>
            executeComparison op vm =
              Return (Some (Errorf ''unable to compare variables of type %s and %s''
                              [TypeArg (Type left), TypeArg (Type right)]))
                (vm\<lparr>sp := sp vm - 2\<rparr>)"
    unfolding unf by auto
  from c1 c2 c3 c4 show ?thesis by blast
qed

theorem executeComparison_cases_witness:
  "executeComparison OpGreaterThan
     (New [] []\<lparr>stack := (\<lambda>_. None)(0 := Some (Integer 5), 1 := Some (Integer 3)), sp := 2\<rparr>)
   = Return None
       (New [] []\<lparr>stack := (\<lambda>_. None)(0 := Some (Boolean True), 1 := Some (Integer 3)),
          sp := 1\<rparr>)"
proof -
  let ?vm = "New [] []\<lparr>stack := (\<lambda>_. None)(0 := Some (Integer 5), 1 := Some (Integer 3)),
    sp := 2\<rparr>"
  have "2 \<le> sp ?vm" "sp ?vm \<le> StackSize" "stack ?vm (sp ?vm - 1) = Some (Integer 3)"
    "stack ?vm (sp ?vm - 2) = Some (Integer 5)"
    "OpGreaterThan \<in> {OpEqual, OpNotEqual, OpGreaterThan}"
    by (simp_all add: New_def StackSize_def)
  from executeComparison_cases [OF this] show ?thesis
    by (simp add: New_def Opcode_defs fun_upd_twist)
qed

section \<open>Properties of the compiler\<close>

lemma seq_Inr [simp]: "seq (Inr x) f = f x"
  by (simp add: seq_def)

lemma seq_Inl [simp]: "seq (Inl e) f = Inl e"
  by (simp add: seq_def)

lemma seq_eq_Inr:
  "seq r f = Inr y \<longleftrightarrow> (\<exists>x. r = Inr x \<and> f x = Inr y)"
  by (cases r) simp_all

lemma currentScope_setCurrentScope:
  "currentScope c = Inr s \<Longrightarrow> currentScope (setCurrentScope s' c) = Inr s'"
  by (auto simp: currentScope_def setCurrentScope_def split: if_splits)

lemma emit_Inr:
  "currentScope c = Inr s \<Longrightarrow>
     emit opcode operands c
       = Inr (length (CompilationScope.instructions s), setCurrentScope (emitted opcode operands s) c)"
  by (simp add: emit_def emitted_def Let_def)

lemma emit0_Inr:
  "currentScope c = Inr s \<Longrightarrow>
     emit0 opcode operands c = Inr (setCurrentScope (emitted opcode operands s) c)"
  by (simp add: emit0_def emit_Inr)

lemma emit0_Inl:
  "currentScope c = Inl e \<Longrightarrow> emit0 opcode operands c = Inl e"
  by (simp add: emit0_def emit_def)

lemma emit0_eq_Inr:
  "emit0 opcode operands c = Inr c' \<longleftrightarrow>
     (\<exists>s. currentScope c = Inr s \<and> c' = setCurrentScope (emitted opcode operands s) c)"
  by (cases "currentScope c") (auto simp: emit0_Inr emit0_Inl)

lemma Bytecode_setCurrentScope:
  "currentScope c = Inr s \<Longrightarrow>
     Bytecode (setCurrentScope s' c) = Inr (CompilationScope.instructions s', Compiler.constants c)"
  by (simp add: Bytecode_def currentScope_setCurrentScope) (simp add: setCurrentScope_def)

lemma Bytecode_Inr:
  "currentScope c = Inr s \<Longrightarrow>
     Bytecode c = Inr (CompilationScope.instructions s, Compiler.constants c)"
  by (simp add: Bytecode_def)

lemma Make_no_operand [simp]:
  "Make OpPop [] = [OpPop]" "Make OpAdd [] = [OpAdd]" "Make OpSub [] = [OpSub]"
  "Make OpMul [] = [OpMul]" "Make OpDiv [] = [OpDiv]" "Make OpEqual [] = [OpEqual]"
  "Make OpNotEqual [] = [OpNotEqual]" "Make OpGreaterThan [] = [OpGreaterThan]"
  "Make OpTrue [] = [OpTrue]" "Make OpFalse [] = [OpFalse]"
  "Make OpReturnValue [] = [OpReturnValue]" "Make OpReturn [] = [OpReturn]"
  by (simp_all add: Make_def OperandWidths_def Opcode_defs)

text \<open>A successful compilation of an expression ends in a state with a current scope.\<close>

lemma changeOperand_scope:
  "changeOperand i x c = Inr c' \<Longrightarrow> \<exists>s. currentScope c' = Inr s"
  by (auto simp: changeOperand_def replaceInstruction_def seq_eq_Inr currentScope_setCurrentScope
      split: if_splits)

lemma emit0_scope:
  "emit0 opcode operands c = Inr c' \<Longrightarrow> \<exists>s. currentScope c' = Inr s"
  by (auto simp: emit0_eq_Inr currentScope_setCurrentScope)

lemma Compile_FunctionE:
  assumes "Compile_Expression txt (ast_FunctionExpression ps body) c = Inr c'"
  obtains c1 c2 isPop c3 isReturnValue c4 t outer ins c5 c6 where
    "defineParameters ps (enterScope c) = Inr c1"
    "Compile_Statements txt body c1 = Inr c2"
    "lastInstructionIs OpPop c2 = Inr isPop"
    "(if isPop then replaceLastPopWithReturn c2 else Inr c2) = Inr c3"
    "lastInstructionIs OpReturnValue c3 = Inr isReturnValue"
    "(if \<not> isReturnValue then emit0 OpReturn [] c3 else Inr c3) = Inr c4"
    "symbolTable c4 = t # outer"
    "leaveScope c4 = Inr (ins, c5)"
    "loadSymbols (FreeSymbols t) c5 = Inr c6"
    "emit0 OpClosure [int (length (Compiler.constants c6)), int (length (FreeSymbols t))]
       (c6\<lparr>Compiler.constants :=
             Compiler.constants c6 @ [CompiledFunction ins (numDefinitions t) (length ps)]\<rparr>)
     = Inr c'"
proof -
  from assms obtain c1 where 1: "defineParameters ps (enterScope c) = Inr c1"
    and r1: "seq (Compile_Statements txt body c1) (\<lambda>c2.
     seq (lastInstructionIs OpPop c2) (\<lambda>isPop.
     seq (if isPop then replaceLastPopWithReturn c2 else Inr c2) (\<lambda>c3.
     seq (lastInstructionIs OpReturnValue c3) (\<lambda>isReturnValue.
     seq (if \<not> isReturnValue then emit0 OpReturn [] c3 else Inr c3) (\<lambda>c4.
       case symbolTable c4 of
         [] \<Rightarrow> Inl Panicked
       | t # _ \<Rightarrow>
           seq (leaveScope c4) (\<lambda>(instructions', c5).
           seq (loadSymbols (FreeSymbols t) c5) (\<lambda>c6.
             case addConstant
                    (CompiledFunction instructions' (numDefinitions t) (length ps)) c6
             of (index, c7) \<Rightarrow>
               emit0 OpClosure [int index, int (length (FreeSymbols t))] c7))))))) = Inr c'"
    by (simp add: seq_eq_Inr) blast
  from r1 obtain c2 isPop c3 isReturnValue c4 where 2: "Compile_Statements txt body c1 = Inr c2"
    and 3: "lastInstructionIs OpPop c2 = Inr isPop"
    and 4: "(if isPop then replaceLastPopWithReturn c2 else Inr c2) = Inr c3"
    and 5: "lastInstructionIs OpReturnValue c3 = Inr isReturnValue"
    and 6: "(if \<not> isReturnValue then emit0 OpReturn [] c3 else Inr c3) = Inr c4"
    and r2: "(case symbolTable c4 of
         [] \<Rightarrow> Inl Panicked
       | t # _ \<Rightarrow>
           seq (leaveScope c4) (\<lambda>(instructions', c5).
           seq (loadSymbols (FreeSymbols t) c5) (\<lambda>c6.
             case addConstant
                    (CompiledFunction instructions' (numDefinitions t) (length ps)) c6
             of (index, c7) \<Rightarrow>
               emit0 OpClosure [int index, int (length (FreeSymbols t))] c7))) = Inr c'"
    unfolding seq_eq_Inr by blast
  from r2 obtain t outer where 7: "symbolTable c4 = t # outer"
    by (cases "symbolTable c4") auto
  from r2 7 obtain ins c5 c6 where 8: "leaveScope c4 = Inr (ins, c5)"
    and 9: "loadSymbols (FreeSymbols t) c5 = Inr c6"
    and 10: "emit0 OpClosure [int (length (Compiler.constants c6)), int (length (FreeSymbols t))]
       (c6\<lparr>Compiler.constants :=
             Compiler.constants c6 @ [CompiledFunction ins (numDefinitions t) (length ps)]\<rparr>)
     = Inr c'"
    by (auto simp: seq_eq_Inr addConstant_def)
  from 1 2 3 4 5 6 7 8 9 10 show thesis by (rule that)
qed

lemma Compile_Expression_scope:
  "Compile_Expression txt e c = Inr c' \<Longrightarrow> \<exists>s. currentScope c' = Inr s"
proof (cases e)
  case (ast_IfExpression cond thn els)
  assume "Compile_Expression txt e c = Inr c'"
  then show ?thesis unfolding ast_IfExpression
    by (cases els)
      (auto simp: seq_eq_Inr split: if_splits prod.splits
        dest: changeOperand_scope)
next
  case (ast_FunctionExpression ps body)
  assume "Compile_Expression txt e c = Inr c'"
  then show ?thesis unfolding ast_FunctionExpression
    by (elim Compile_FunctionE) (rule emit0_scope)
qed (auto simp: seq_eq_Inr loadSymbol_def addConstant_def
      split: if_splits prod.splits option.splits dest: emit0_scope)

lemma emit0_Bytecode:
  assumes "currentScope c = Inr s"
  shows "\<exists>c'. emit0 opcode operands c = Inr c' \<and>
           Bytecode c' = Inr (CompilationScope.instructions s @ Make opcode operands,
                              Compiler.constants c)"
  using assms by (simp add: emit0_Inr Bytecode_setCurrentScope emitted_def)


lemmas ev_compile =
  New_Compiler_def emptyScope_def emptyInstruction_def currentScope_def setCurrentScope_def
  addConstant_def emit0_def emit_def seq_def Bytecode_def Make_def OperandWidths_def
  putOperand_def Opcode_defs Let_def



text \<open>
  Claim C6. The compiler with scopes, on an infix expression: for \<^verbatim>\<open><\<close> the instructions of
  the right operand, then those of the left operand, then the one byte \<^verbatim>\<open>GreaterThan\<close>; for
  \<^verbatim>\<open>+ - * / == != >\<close> the instructions of the left operand, then those of the right operand,
  then the one byte of the operator's opcode. Below \<open>a\<close> is the operand compiled first and
  \<open>b\<close> the operand compiled second.
\<close>

theorem InfixExpression_operand_order:
  assumes "Compile_Expression txt a c = Inr c1"
    and "Compile_Expression txt b c1 = Inr c2"
  shows "\<exists>ins consts.
           Bytecode c2 = Inr (ins, consts) \<and>
           (\<exists>c'. Compile_Expression txt (ast_InfixExpression ''<'' b a) c = Inr c' \<and>
                  Bytecode c' = Inr (ins @ [OpGreaterThan], consts)) \<and>
           (\<forall>(operator, opcode) \<in> set [(''+'', OpAdd), (''-'', OpSub), (''*'', OpMul),
                 (''/'', OpDiv), (''=='', OpEqual), (''!='', OpNotEqual), (''>'', OpGreaterThan)].
              \<exists>c'. Compile_Expression txt (ast_InfixExpression operator a b) c = Inr c' \<and>
                    Bytecode c' = Inr (ins @ [opcode], consts))"
proof -
  from assms(2) obtain s2 where s2: "currentScope c2 = Inr s2"
    using Compile_Expression_scope by blast
  have e: "\<exists>c'. emit0 opcode [] c2 = Inr c' \<and>
           Bytecode c' = Inr (CompilationScope.instructions s2 @ Make opcode [],
                              Compiler.constants c2)" for opcode
    using emit0_Bytecode [OF s2] .
  show ?thesis
    using assms e [of OpGreaterThan] e [of OpAdd] e [of OpSub] e [of OpMul] e [of OpDiv]
      e [of OpEqual] e [of OpNotEqual]
    by (simp add: Bytecode_Inr [OF s2])
qed

theorem InfixExpression_operand_order_witness:
  "(\<exists>c'. Compile_Expression Expression_String
            (ast_InfixExpression ''<'' (ast_Integer 2) (ast_Integer 1)) New_Compiler = Inr c' \<and>
          Bytecode c' = Inr ([OpConstant, 0, 0, OpConstant, 0, 1, OpGreaterThan],
                             [Integer 1, Integer 2])) \<and>
   (\<exists>c'. Compile_Expression Expression_String
            (ast_InfixExpression ''-'' (ast_Integer 1) (ast_Integer 2)) New_Compiler = Inr c' \<and>
          Bytecode c' = Inr ([OpConstant, 0, 0, OpConstant, 0, 1, OpSub],
                             [Integer 1, Integer 2]))"
proof -
  let ?c1 = "New_Compiler
          \<lparr>Compiler.constants := [Integer 1],
            scopes := [\<lparr>CompilationScope.instructions = [OpConstant, 0, 0],
                        lastInstruction = \<lparr>Opcode = OpConstant, Position = 0\<rparr>,
                        previousInstruction = emptyInstruction\<rparr>]\<rparr>"
  let ?c2 = "New_Compiler
          \<lparr>Compiler.constants := [Integer 1, Integer 2],
            scopes := [\<lparr>CompilationScope.instructions = [OpConstant, 0, 0, OpConstant, 0, 1],
                        lastInstruction = \<lparr>Opcode = OpConstant, Position = 3\<rparr>,
                        previousInstruction = \<lparr>Opcode = OpConstant, Position = 0\<rparr>\<rparr>]\<rparr>"
  have 1: "Compile_Expression Expression_String (ast_Integer 1) New_Compiler = Inr ?c1"
    by (simp add: ev_compile)
  have 2: "Compile_Expression Expression_String (ast_Integer 2) ?c1 = Inr ?c2"
    by (simp add: ev_compile)
  have 3: "Bytecode ?c2 = Inr ([OpConstant, 0, 0, OpConstant, 0, 1], [Integer 1, Integer 2])"
    by (simp add: ev_compile)
  from InfixExpression_operand_order [OF 1 2] show ?thesis
    unfolding 3 by simp
qed

lemma setCurrentScope_twice:
  "setCurrentScope s' (setCurrentScope s c) = setCurrentScope s' c"
  by (simp add: setCurrentScope_def)

lemma EmittedInstruction_Opcode_update:
  "e\<lparr>Opcode := opcode\<rparr> = \<lparr>Opcode = opcode, Position = Position e\<rparr>"
  by (cases e) simp

lemma replaceLastPopWithReturn_Inr:
  assumes "currentScope c = Inr s"
  shows "replaceLastPopWithReturn c =
     (if Position (lastInstruction s) < length (CompilationScope.instructions s)
      then Inr (setCurrentScope
             (s\<lparr>CompilationScope.instructions :=
                   (CompilationScope.instructions s)[Position (lastInstruction s) := OpReturnValue],
                lastInstruction :=
                   \<lparr>Opcode = OpReturnValue, Position = Position (lastInstruction s)\<rparr>\<rparr>) c)
      else Inl Panicked)"
  using assms
  by (auto simp: replaceLastPopWithReturn_def replaceInstruction_def
      currentScope_setCurrentScope setCurrentScope_twice upd_conv_take_nth_drop
      EmittedInstruction_Opcode_update)

lemma lastInstructionIs_Inr:
  "currentScope c = Inr s \<Longrightarrow> lastInstructionIs opcode c = Inr (Opcode (lastInstruction s) = opcode)"
  by (simp add: lastInstructionIs_def)

lemma lastInstructionIs_scope:
  "lastInstructionIs opcode c = Inr b \<Longrightarrow> \<exists>s. currentScope c = Inr s"
  by (auto simp: lastInstructionIs_def seq_eq_Inr)

lemma leaveScope_Inr:
  "leaveScope c = Inr (ins, c') \<Longrightarrow>
     \<exists>s. currentScope c = Inr s \<and> ins = CompilationScope.instructions s"
  by (auto simp: leaveScope_def seq_eq_Inr split: list.splits)

lemma loadSymbol_constants:
  "loadSymbol symbol c = Inr c' \<Longrightarrow> Compiler.constants c' = Compiler.constants c"
  by (auto simp: loadSymbol_def emit0_eq_Inr setCurrentScope_def)

lemma loadSymbols_constants:
  "loadSymbols symbols c = Inr c' \<Longrightarrow> Compiler.constants c' = Compiler.constants c"
  by (induction symbols arbitrary: c) (auto simp: seq_eq_Inr dest: loadSymbol_constants)

text \<open>
  Claim C7. The body of a function literal, compiled in its own scope: when the last
  instruction is \<^verbatim>\<open>Pop\<close>, \<^verbatim>\<open>replaceLastPopWithReturn\<close> overwrites the byte at its position with
  \<^verbatim>\<open>ReturnValue\<close>, the instructions keeping their length, and records \<^verbatim>\<open>ReturnValue\<close> at the
  same position as the last instruction; the instructions of the compiled function are the
  body's with that byte replaced when the body ended in \<^verbatim>\<open>Pop\<close>, the body's unchanged when it
  ended in \<^verbatim>\<open>ReturnValue\<close>, and the body's followed by one \<^verbatim>\<open>Return\<close> otherwise.
\<close>

theorem function_body_return:
  assumes "Compile_Expression txt (ast_FunctionExpression parameters body) c = Inr c'"
  shows "\<exists>c1 c2 s2.
     defineParameters parameters (enterScope c) = Inr c1 \<and>
     Compile_Statements txt body c1 = Inr c2 \<and>
     currentScope c2 = Inr s2 \<and>
     (Opcode (lastInstruction s2) = OpPop \<longrightarrow>
        Position (lastInstruction s2) < length (CompilationScope.instructions s2) \<and>
        replaceLastPopWithReturn c2
          = Inr (setCurrentScope
               (s2\<lparr>CompilationScope.instructions :=
                     (CompilationScope.instructions s2)
                       [Position (lastInstruction s2) := OpReturnValue],
                   lastInstruction :=
                     \<lparr>Opcode = OpReturnValue, Position = Position (lastInstruction s2)\<rparr>\<rparr>) c2)) \<and>
     (\<exists>numLocals.
        last (Compiler.constants c') =
          CompiledFunction
            (if Opcode (lastInstruction s2) = OpPop
             then (CompilationScope.instructions s2)[Position (lastInstruction s2) := OpReturnValue]
             else if Opcode (lastInstruction s2) = OpReturnValue
             then CompilationScope.instructions s2
             else CompilationScope.instructions s2 @ [OpReturn])
            numLocals (length parameters))"
proof -
  obtain c1 c2 isPop c3 isReturnValue c4 t outer ins c5 c6 where
    1: "defineParameters parameters (enterScope c) = Inr c1" and
    2: "Compile_Statements txt body c1 = Inr c2" and
    3: "lastInstructionIs OpPop c2 = Inr isPop" and
    4: "(if isPop then replaceLastPopWithReturn c2 else Inr c2) = Inr c3" and
    5: "lastInstructionIs OpReturnValue c3 = Inr isReturnValue" and
    6: "(if \<not> isReturnValue then emit0 OpReturn [] c3 else Inr c3) = Inr c4" and
    7: "symbolTable c4 = t # outer" and
    8: "leaveScope c4 = Inr (ins, c5)" and
    9: "loadSymbols (FreeSymbols t) c5 = Inr c6" and
    10: "emit0 OpClosure [int (length (Compiler.constants c6)), int (length (FreeSymbols t))]
       (c6\<lparr>Compiler.constants :=
             Compiler.constants c6 @ [CompiledFunction ins (numDefinitions t) (length parameters)]\<rparr>)
     = Inr c'"
    by (rule Compile_FunctionE [OF assms])
  from 3 obtain s2 where s2: "currentScope c2 = Inr s2"
    using lastInstructionIs_scope by blast
  let ?pos = "Position (lastInstruction s2)"
  let ?ins2 = "CompilationScope.instructions s2"
  let ?replaced = "s2\<lparr>CompilationScope.instructions := ?ins2[?pos := OpReturnValue],
                      lastInstruction := \<lparr>Opcode = OpReturnValue, Position = ?pos\<rparr>\<rparr>"
  from 3 s2 have isPop: "isPop = (Opcode (lastInstruction s2) = OpPop)"
    by (simp add: lastInstructionIs_Inr)
  have a: "?pos < length ?ins2 \<and> replaceLastPopWithReturn c2 = Inr (setCurrentScope ?replaced c2)"
    if "Opcode (lastInstruction s2) = OpPop"
    using that 4 isPop replaceLastPopWithReturn_Inr [OF s2] by (simp split: if_splits)
  have const: "last (Compiler.constants c')
      = CompiledFunction ins (numDefinitions t) (length parameters)"
    using 10 by (auto simp: emit0_eq_Inr setCurrentScope_def)
  have ins: "ins = (if Opcode (lastInstruction s2) = OpPop then ?ins2[?pos := OpReturnValue]
             else if Opcode (lastInstruction s2) = OpReturnValue then ?ins2
             else ?ins2 @ [OpReturn])"
  proof (cases "Opcode (lastInstruction s2) = OpPop")
    case True
    with a 4 isPop have c3: "c3 = setCurrentScope ?replaced c2"
      by simp
    then have s3: "currentScope c3 = Inr ?replaced"
      using s2 by (simp add: currentScope_setCurrentScope)
    with 5 have "isReturnValue"
      by (simp add: lastInstructionIs_Inr)
    with 6 have "c4 = c3"
      by simp
    with 8 s3 True show ?thesis
      by (auto dest: leaveScope_Inr)
  next
    case False
    with 4 isPop have c3: "c3 = c2"
      by simp
    with 5 s2 have rv: "isReturnValue = (Opcode (lastInstruction s2) = OpReturnValue)"
      by (simp add: lastInstructionIs_Inr)
    show ?thesis
    proof (cases "Opcode (lastInstruction s2) = OpReturnValue")
      case True
      with 6 rv c3 have "c4 = c2"
        by simp
      with 8 s2 True False show ?thesis
        by (auto dest: leaveScope_Inr)
    next
      case notrv: False
      with 6 rv c3 have "emit0 OpReturn [] c2 = Inr c4"
        by simp
      with s2 have "currentScope c4 = Inr (emitted OpReturn [] s2)"
        by (auto simp: emit0_Inr currentScope_setCurrentScope)
      with 8 False notrv show ?thesis
        by (auto simp: emitted_def dest: leaveScope_Inr)
    qed
  qed
  from 1 2 s2 a const ins show ?thesis
    by blast
qed

lemmas ev_function =
  ev_compile enterScope_def leaveScope_def lastInstructionIs_def replaceLastPopWithReturn_def
  replaceInstruction_def NewSymbolTable_def

theorem function_body_return_witness:
  "Compile_Expression Expression_String
     (ast_FunctionExpression [] [ast_ExpressionStatement (ast_Integer 1)]) New_Compiler
     = Inr (New_Compiler
          \<lparr>Compiler.constants := [Integer 1, CompiledFunction [OpConstant, 0, 0, OpReturnValue] 0 0],
            scopes := [\<lparr>CompilationScope.instructions = [OpClosure, 0, 1, 0],
                        lastInstruction = \<lparr>Opcode = OpClosure, Position = 0\<rparr>,
                        previousInstruction = emptyInstruction\<rparr>]\<rparr>) \<and>
   (\<exists>c2 s2.
      Compile_Statements Expression_String [ast_ExpressionStatement (ast_Integer 1)]
        (enterScope New_Compiler) = Inr c2 \<and>
      currentScope c2 = Inr s2 \<and>
      CompilationScope.instructions s2 = [OpConstant, 0, 0, OpPop] \<and>
      lastInstruction s2 = \<lparr>Opcode = OpPop, Position = 3\<rparr> \<and>
      replaceLastPopWithReturn c2
        = Inr (setCurrentScope
             (s2\<lparr>CompilationScope.instructions := [OpConstant, 0, 0, OpReturnValue],
                 lastInstruction := \<lparr>Opcode = OpReturnValue, Position = 3\<rparr>\<rparr>) c2))"
proof -
  let ?c' = "New_Compiler
          \<lparr>Compiler.constants := [Integer 1, CompiledFunction [OpConstant, 0, 0, OpReturnValue] 0 0],
            scopes := [\<lparr>CompilationScope.instructions = [OpClosure, 0, 1, 0],
                        lastInstruction = \<lparr>Opcode = OpClosure, Position = 0\<rparr>,
                        previousInstruction = emptyInstruction\<rparr>]\<rparr>"
  let ?s2 = "\<lparr>CompilationScope.instructions = [OpConstant, 0, 0, OpPop],
              lastInstruction = \<lparr>Opcode = OpPop, Position = 3\<rparr>,
              previousInstruction = \<lparr>Opcode = OpConstant, Position = 0\<rparr>\<rparr>"
  let ?c2 = "(enterScope New_Compiler)
          \<lparr>Compiler.constants := [Integer 1], scopes := [emptyScope, ?s2]\<rparr>"
  have 1: "Compile_Expression Expression_String
     (ast_FunctionExpression [] [ast_ExpressionStatement (ast_Integer 1)]) New_Compiler = Inr ?c'"
    by (simp add: ev_function)
  have 2: "Compile_Statements Expression_String [ast_ExpressionStatement (ast_Integer 1)]
        (enterScope New_Compiler) = Inr ?c2"
    by (simp add: ev_function)
  have 3: "currentScope ?c2 = Inr ?s2"
    by (simp add: ev_function)
  from function_body_return [OF 1] 2 3 have "\<exists>c2 s2.
      Compile_Statements Expression_String [ast_ExpressionStatement (ast_Integer 1)]
        (enterScope New_Compiler) = Inr c2 \<and>
      currentScope c2 = Inr s2 \<and>
      CompilationScope.instructions s2 = [OpConstant, 0, 0, OpPop] \<and>
      lastInstruction s2 = \<lparr>Opcode = OpPop, Position = 3\<rparr> \<and>
      replaceLastPopWithReturn c2
        = Inr (setCurrentScope
             (s2\<lparr>CompilationScope.instructions := [OpConstant, 0, 0, OpReturnValue],
                 lastInstruction := \<lparr>Opcode = OpReturnValue, Position = 3\<rparr>\<rparr>) c2)"
    by simp
  with 1 show ?thesis
    by (rule conjI)
qed

lemma mset_sift: "mset (sift lt x ys) = add_mset x (mset ys)"
  by (induction ys) auto

lemma mset_foldl_sift:
  "mset (foldl (\<lambda>acc x. sift lt x acc) acc0 xs) = mset acc0 + mset xs"
  by (induction xs arbitrary: acc0) (auto simp: mset_sift)

lemma mset_sort_Slice: "mset (sort_Slice lt xs) = mset xs"
  by (simp add: sort_Slice_def mset_foldl_sift)

lemma sorted_sift:
  fixes f :: "'a \<Rightarrow> 'b::linorder"
  assumes "sorted (rev (map f ys))"
  shows "sorted (rev (map f (sift (\<lambda>p q. f p < f q) x ys)))"
  using assms
proof (induction ys)
  case Nil
  then show ?case by simp
next
  case (Cons y ys)
  have set: "set (sift (\<lambda>p q. f p < f q) x ys) = insert x (set ys)"
    using mset_sift [of "\<lambda>p q. f p < f q" x ys, THEN arg_cong, of set_mset] by simp
  from Cons show ?case
    by (auto simp: sorted_append set)
qed

lemma sorted_foldl_sift:
  fixes f :: "'a \<Rightarrow> 'b::linorder"
  assumes "sorted (rev (map f acc0))"
  shows "sorted (rev (map f (foldl (\<lambda>acc x. sift (\<lambda>p q. f p < f q) x acc) acc0 xs)))"
  using assms by (induction xs arbitrary: acc0) (auto intro: sorted_sift)

lemma sorted_sort_Slice:
  fixes f :: "'a \<Rightarrow> 'b::linorder"
  shows "sorted (map f (sort_Slice (\<lambda>p q. f p < f q) xs))"
  using sorted_foldl_sift [of f "[]" xs] by (simp add: sort_Slice_def rev_map)

lemma sort_Slice_enumeration_order:
  fixes f :: "'a \<Rightarrow> 'b::linorder"
  assumes "distinct (map f xs)" and "mset xs' = mset xs"
  shows "sort_Slice (\<lambda>p q. f p < f q) xs' = sort_Slice (\<lambda>p q. f p < f q) xs"
proof (rule map_sorted_distinct_set_unique [where f = f])
  let ?A = "sort_Slice (\<lambda>p q. f p < f q) xs'" and ?B = "sort_Slice (\<lambda>p q. f p < f q) xs"
  have A: "mset ?A = mset xs" and B: "mset ?B = mset xs"
    using assms(2) by (simp_all add: mset_sort_Slice)
  then have sets: "set ?A = set xs" "set ?B = set xs"
    by (metis set_mset_mset)+
  from assms(1) have "inj_on f (set xs)"
    by (simp add: distinct_map)
  with sets show "inj_on f (set ?A \<union> set ?B)"
    by simp
  show "sorted (map f ?A)" "sorted (map f ?B)"
    by (rule sorted_sort_Slice)+
  from A have "mset (map f ?A) = mset (map f xs)"
    by simp
  with assms(1) show "distinct (map f ?A)"
    by (metis mset_eq_imp_distinct_iff)
  from B have "mset (map f ?B) = mset (map f xs)"
    by simp
  with assms(1) show "distinct (map f ?B)"
    by (metis mset_eq_imp_distinct_iff)
  from sets show "set ?A = set ?B"
    by simp
qed

text \<open>
  A hash literal whose keys have pairwise different texts: every enumeration order of the
  entries gives the same result, the entries being compiled in ascending order of the text
  of their keys and followed by \<^verbatim>\<open>Hash\<close> with twice their number.
\<close>

lemma Hash_distinct_keys:
  assumes "distinct (map (txt \<circ> fst) pairs)" and "mset pairs' = mset pairs"
  shows "Compile_Expression txt (ast_Hash pairs') c = Compile_Expression txt (ast_Hash pairs) c"
    and "sorted (map (txt \<circ> fst) (sortedPairs txt pairs))"
    and "mset (sortedPairs txt pairs) = mset pairs"
    and "Compile_Pairs txt (sortedPairs txt pairs) c = Inr c1 \<Longrightarrow> Bytecode c1 = Inr (ins, cs) \<Longrightarrow>
         \<exists>c'. Compile_Expression txt (ast_Hash pairs) c = Inr c' \<and>
              Bytecode c' = Inr (ins @ Make OpHash [2 * int (length pairs)], cs)"
proof -
  have "sortedPairs txt pairs' = sortedPairs txt pairs"
    unfolding sortedPairs_def
    using sort_Slice_enumeration_order [of "txt \<circ> fst" pairs pairs'] assms by simp
  moreover have "length pairs' = length pairs"
    using assms(2) by (metis size_mset)
  ultimately show "Compile_Expression txt (ast_Hash pairs') c
      = Compile_Expression txt (ast_Hash pairs) c"
    by simp
  show "sorted (map (txt \<circ> fst) (sortedPairs txt pairs))"
    unfolding sortedPairs_def using sorted_sort_Slice [of "txt \<circ> fst" pairs] by simp
  show "mset (sortedPairs txt pairs) = mset pairs"
    by (simp add: sortedPairs_def mset_sort_Slice)
  assume c1: "Compile_Pairs txt (sortedPairs txt pairs) c = Inr c1"
    and bc: "Bytecode c1 = Inr (ins, cs)"
  from bc obtain s1 where s1: "currentScope c1 = Inr s1"
    by (auto simp: Bytecode_def seq_eq_Inr)
  from emit0_Bytecode [OF s1, of OpHash "[2 * int (length pairs)]"] c1 bc s1
  show "\<exists>c'. Compile_Expression txt (ast_Hash pairs) c = Inr c' \<and>
              Bytecode c' = Inr (ins @ Make OpHash [2 * int (length pairs)], cs)"
    by (auto simp: Bytecode_Inr mult.commute)
qed

text \<open>
  Claim C8. The hash literal \<^verbatim>\<open>{1: true, 1: false}\<close> has two entries whose keys have the same
  text \<^verbatim>\<open>1\<close>. Neither key is less than the other, so the sort leaves them in the order in
  which the map was enumerated, and the two enumeration orders give different bytecode.
\<close>

theorem Hash_equal_keys_enumeration_order:
  "Expression_String (ast_Integer 1) = ''1'' \<and>
   seq (Compile_Expression Expression_String
          (ast_Hash [(ast_Integer 1, ast_Boolean True), (ast_Integer 1, ast_Boolean False)])
          New_Compiler) Bytecode
     = Inr ([OpConstant, 0, 0, OpTrue, OpConstant, 0, 1, OpFalse, OpHash, 0, 4],
            [Integer 1, Integer 1]) \<and>
   seq (Compile_Expression Expression_String
          (ast_Hash [(ast_Integer 1, ast_Boolean False), (ast_Integer 1, ast_Boolean True)])
          New_Compiler) Bytecode
     = Inr ([OpConstant, 0, 0, OpFalse, OpConstant, 0, 1, OpTrue, OpHash, 0, 4],
            [Integer 1, Integer 1]) \<and>
   OpTrue \<noteq> OpFalse"
  by (simp add: ev_compile sortedPairs_def sort_Slice_def decimal.simps)

section \<open>The stack after an expression statement\<close>

lemma pushes_one_mono:
  "pushes_one code k \<Longrightarrow> k \<le> k' \<Longrightarrow> pushes_one code k'"
  unfolding pushes_one_def by (meson order_trans)

lemma push_shape:
  "push (Some v) vm = Return (Some (errors_New ''stack overflow'')) vm \<and> StackSize \<le> sp vm \<or>
   push (Some v) vm = Return None (vm\<lparr>stack := (stack vm)(sp vm := Some v), sp := sp vm + 1\<rparr>) \<and>
     sp vm < StackSize"
  by (auto simp: push_def)

lemma Run_from_push:
  assumes "ip < length (VM.instructions vm)"
    and "Run_body ip vm = (case push (Some v) vm of Panic \<Rightarrow> Panic
                            | Return err vm' \<Rightarrow> Return (err, ip') vm')"
  shows "(\<exists>e vm'. Run_from ip vm = Return (Some e) vm') \<or>
         Run_from ip vm
           = Run_from (ip' + 1) (vm\<lparr>stack := (stack vm)(sp vm := Some v), sp := sp vm + 1\<rparr>) \<and>
         sp vm < StackSize"
  using push_shape [of v vm] assms
  by (auto simp: Run_from_error Run_from_next)

lemma Uint16_at_Constant:
  "\<exists>index. Uint16_at (pre @ Make OpConstant [int n] @ post) (length pre + 1) = Some index \<and>
           index \<le> n"
proof -
  have "int n div 256 = int (n div 256)"
    by simp
  then have "unat (word_of_int (int n div 256) :: 8 word) = (n div 256) mod 256"
    by (simp only: of_int_of_nat_eq unsigned_of_nat take_bit_eq_mod) simp
  then have "unat (word_of_int (int n div 256) :: 8 word) \<le> n div 256"
    by simp
  moreover have "unat (word_of_int (int n) :: 8 word) = n mod 256"
    by (simp add: unsigned_of_nat take_bit_eq_mod)
  moreover have "n div 256 * 256 + n mod 256 = n"
    by simp
  ultimately have "unat (word_of_int (int n div 256) :: 8 word) * 256
      + unat (word_of_int (int n) :: 8 word) \<le> n"
    by (metis add_le_mono1 mult_le_mono1)
  then show ?thesis
    by (simp add: Uint16_at_def Make_def OperandWidths_def putOperand_def nth_append)
qed

lemma pushes_one_Constant:
  assumes "n < k"
  shows "pushes_one (Make OpConstant [int n]) k"
  unfolding pushes_one_def
proof (intro allI impI, elim conjE)
  fix vm :: VM and pre post
  assume ins: "VM.instructions vm = pre @ Make OpConstant [int n] @ post"
    and k: "k \<le> length (VM.constants vm)"
  have len: "length (Make OpConstant [int n]) = 3"
    by (simp add: Make_def OperandWidths_def putOperand_def)
  from ins len have ip: "length pre < length (VM.instructions vm)"
    by simp
  have op: "VM.instructions vm ! length pre = OpConstant"
    by (simp add: ins Make_def OperandWidths_def nth_append)
  from Uint16_at_Constant [of pre n post] obtain index where
    index: "Uint16_at (VM.instructions vm) (length pre + 1) = Some index" "index \<le> n"
    unfolding ins by blast
  with assms k have "index < length (VM.constants vm)"
    by simp
  with op index have body: "Run_body (length pre) vm
      = (case push (Some (VM.constants vm ! index)) vm of Panic \<Rightarrow> Panic
         | Return err vm' \<Rightarrow> Return (err, length pre + 2) vm')"
    by (simp add: Run_body_def)
  from Run_from_push [OF ip body] len
  show "Run_from (length pre) vm = Panic \<or>
        (\<exists>e vm'. Run_from (length pre) vm = Return (Some e) vm') \<or>
        (\<exists>vm'. Run_from (length pre) vm
                 = Run_from (length pre + length (Make OpConstant [int n])) vm' \<and>
               VM.instructions vm' = VM.instructions vm \<and> VM.constants vm' = VM.constants vm \<and>
               sp vm' = sp vm + 1 \<and> sp vm < StackSize \<and>
               (\<exists>v. stack vm' (sp vm) = Some v) \<and>
               (\<forall>i < sp vm. stack vm' i = stack vm i))"
    by (auto simp: numeral_3_eq_3)
qed

lemma pushes_one_Boolean:
  "pushes_one [OpTrue] k" "pushes_one [OpFalse] k"
  unfolding pushes_one_def
proof (safe del: disjCI)
  fix vm :: VM and pre post
  assume ins: "VM.instructions vm = pre @ [OpTrue] @ post"
  then have ip: "length pre < length (VM.instructions vm)"
    by simp
  from ins have body: "Run_body (length pre) vm
      = (case push (Some True_obj) vm of Panic \<Rightarrow> Panic
         | Return err vm' \<Rightarrow> Return (err, length pre) vm')"
    by (simp add: Run_body_def Opcode_defs)
  from Run_from_push [OF ip body]
  show "Run_from (length pre) vm = Panic \<or>
        (\<exists>e vm'. Run_from (length pre) vm = Return (Some e) vm') \<or>
        (\<exists>vm'. Run_from (length pre) vm = Run_from (length pre + length [OpTrue]) vm' \<and>
               VM.instructions vm' = VM.instructions vm \<and> VM.constants vm' = VM.constants vm \<and>
               sp vm' = sp vm + 1 \<and> sp vm < StackSize \<and>
               (\<exists>v. stack vm' (sp vm) = Some v) \<and>
               (\<forall>i < sp vm. stack vm' i = stack vm i))"
    by auto
next
  fix vm :: VM and pre post
  assume ins: "VM.instructions vm = pre @ [OpFalse] @ post"
  then have ip: "length pre < length (VM.instructions vm)"
    by simp
  from ins have body: "Run_body (length pre) vm
      = (case push (Some False_obj) vm of Panic \<Rightarrow> Panic
         | Return err vm' \<Rightarrow> Return (err, length pre) vm')"
    by (simp add: Run_body_def Opcode_defs)
  from Run_from_push [OF ip body]
  show "Run_from (length pre) vm = Panic \<or>
        (\<exists>e vm'. Run_from (length pre) vm = Return (Some e) vm') \<or>
        (\<exists>vm'. Run_from (length pre) vm = Run_from (length pre + length [OpFalse]) vm' \<and>
               VM.instructions vm' = VM.instructions vm \<and> VM.constants vm' = VM.constants vm \<and>
               sp vm' = sp vm + 1 \<and> sp vm < StackSize \<and>
               (\<exists>v. stack vm' (sp vm) = Some v) \<and>
               (\<forall>i < sp vm. stack vm' i = stack vm i))"
    by auto
qed

lemma Run_from_Bang_Minus:
  assumes "ip < length (VM.instructions vm)"
    and "VM.instructions vm ! ip = OpBang \<or> VM.instructions vm ! ip = OpMinus"
  shows "Run_from ip vm = Run_from (ip + 1) vm"
proof -
  from assms(2) have "Run_body ip vm = Return (None, ip) vm"
    by (auto simp: Run_body_def Opcode_defs)
  with assms(1) show ?thesis
    by (rule Run_from_next)
qed

lemma pushes_one_prefix:
  assumes "pushes_one code k" and "opcode = OpBang \<or> opcode = OpMinus"
  shows "pushes_one (code @ [opcode]) k"
  unfolding pushes_one_def
proof (intro allI impI, elim conjE)
  fix vm :: VM and pre post
  assume ins: "VM.instructions vm = pre @ (code @ [opcode]) @ post"
    and k: "k \<le> length (VM.constants vm)"
  from ins have ins': "VM.instructions vm = pre @ code @ (opcode # post)"
    by simp
  from assms(1) [unfolded pushes_one_def, rule_format, OF conjI, OF ins' k]
  consider "Run_from (length pre) vm = Panic"
    | "\<exists>e vm'. Run_from (length pre) vm = Return (Some e) vm'"
    | vm' where "Run_from (length pre) vm = Run_from (length pre + length code) vm'"
        "VM.instructions vm' = VM.instructions vm" "VM.constants vm' = VM.constants vm"
        "sp vm' = sp vm + 1" "sp vm < StackSize" "\<exists>v. stack vm' (sp vm) = Some v"
        "\<forall>i < sp vm. stack vm' i = stack vm i"
    by blast
  then show "Run_from (length pre) vm = Panic \<or>
        (\<exists>e vm'. Run_from (length pre) vm = Return (Some e) vm') \<or>
        (\<exists>vm'. Run_from (length pre) vm
                 = Run_from (length pre + length (code @ [opcode])) vm' \<and>
               VM.instructions vm' = VM.instructions vm \<and> VM.constants vm' = VM.constants vm \<and>
               sp vm' = sp vm + 1 \<and> sp vm < StackSize \<and>
               (\<exists>v. stack vm' (sp vm) = Some v) \<and>
               (\<forall>i < sp vm. stack vm' i = stack vm i))"
  proof cases
    case 3
    have "length pre + length code < length (VM.instructions vm')"
      by (simp add: 3(2) ins)
    moreover have "VM.instructions vm' ! (length pre + length code) = opcode"
      by (simp add: 3(2) ins nth_append)
    ultimately have "Run_from (length pre + length code) vm'
        = Run_from (length pre + length code + 1) vm'"
      using assms(2) by (intro Run_from_Bang_Minus) auto
    with 3 show ?thesis
      by (auto simp: add.assoc)
  qed auto
qed

text \<open>The instruction of an infix operator on two operands that are not nil.\<close>

lemma executeBinaryIntegerOperation_shape:
  assumes "opcode \<in> {OpAdd, OpSub, OpMul, OpDiv}"
    and "sp vm = n + 2" and "n + 1 < StackSize"
  shows "executeBinaryIntegerOperation opcode vm = Panic \<or>
         (\<exists>v. executeBinaryIntegerOperation opcode vm
                = Return None (vm\<lparr>stack := (stack vm)(n := Some v), sp := n + 1\<rparr>))"
  using assms
  by (auto simp: executeBinaryIntegerOperation_def pop_def push_def
      split: option.splits Object.splits)

lemma executeComparison_shape:
  assumes "sp vm = n + 2" and "n + 1 < StackSize"
  shows "executeComparison opcode vm = Panic \<or>
         (\<exists>e vm'. executeComparison opcode vm = Return (Some e) vm') \<or>
         (\<exists>v. executeComparison opcode vm
                = Return None (vm\<lparr>stack := (stack vm)(n := Some v), sp := n + 1\<rparr>))"
  using assms
  by (auto simp: executeComparison_def executeIntegerComparison_def
      executeBooleanComparison_def pop_def push_def
      split: option.splits Object.splits)

lemma Run_from_infix:
  assumes "ip < length (VM.instructions vm)"
    and "VM.instructions vm ! ip \<in> infix_opcodes"
    and "sp vm = n + 2" and "n + 1 < StackSize"
  shows "Run_from ip vm = Panic \<or>
         (\<exists>e vm'. Run_from ip vm = Return (Some e) vm') \<or>
         (\<exists>v. Run_from ip vm
                = Run_from (ip + 1) (vm\<lparr>stack := (stack vm)(n := Some v), sp := n + 1\<rparr>))"
proof (cases "VM.instructions vm ! ip \<in> {OpAdd, OpSub, OpMul, OpDiv}")
  case True
  then have body: "Run_body ip vm =
      (case executeBinaryIntegerOperation (VM.instructions vm ! ip) vm of
         Panic \<Rightarrow> Panic | Return err vm' \<Rightarrow> Return (err, ip) vm')"
    by (auto simp: Run_body_def Opcode_defs)
  from executeBinaryIntegerOperation_shape [OF True assms(3,4)] show ?thesis
  proof (elim disjE exE)
    assume "executeBinaryIntegerOperation (VM.instructions vm ! ip) vm = Panic"
    with body have "Run_body ip vm = Panic" by simp
    with assms(1) show ?thesis by (simp add: Run_from_Panic)
  next
    fix v
    assume "executeBinaryIntegerOperation (VM.instructions vm ! ip) vm
                = Return None (vm\<lparr>stack := (stack vm)(n := Some v), sp := n + 1\<rparr>)"
    with body have "Run_body ip vm
        = Return (None, ip) (vm\<lparr>stack := (stack vm)(n := Some v), sp := n + 1\<rparr>)"
      by simp
    from Run_from_next [OF assms(1) this] show ?thesis by blast
  qed
next
  case False
  with assms(2) have cmp: "VM.instructions vm ! ip \<in> {OpEqual, OpNotEqual, OpGreaterThan}"
    by (auto simp: infix_opcodes_def)
  then have body: "Run_body ip vm =
      (case executeComparison (VM.instructions vm ! ip) vm of
         Panic \<Rightarrow> Panic | Return err vm' \<Rightarrow> Return (err, ip) vm')"
    by (auto simp: Run_body_def Opcode_defs)
  from executeComparison_shape [OF assms(3,4), of "VM.instructions vm ! ip"] show ?thesis
  proof (elim disjE exE)
    assume "executeComparison (VM.instructions vm ! ip) vm = Panic"
    with body have "Run_body ip vm = Panic" by simp
    with assms(1) show ?thesis by (simp add: Run_from_Panic)
  next
    fix e vm'
    assume "executeComparison (VM.instructions vm ! ip) vm = Return (Some e) vm'"
    with body have "Run_body ip vm = Return (Some e, ip) vm'" by simp
    from Run_from_error [OF assms(1) this] show ?thesis by blast
  next
    fix v
    assume "executeComparison (VM.instructions vm ! ip) vm
                = Return None (vm\<lparr>stack := (stack vm)(n := Some v), sp := n + 1\<rparr>)"
    with body have "Run_body ip vm
        = Return (None, ip) (vm\<lparr>stack := (stack vm)(n := Some v), sp := n + 1\<rparr>)"
      by simp
    from Run_from_next [OF assms(1) this] show ?thesis by blast
  qed
qed

lemma pushes_one_infix:
  assumes a: "pushes_one a k" and b: "pushes_one b k" and op: "opcode \<in> infix_opcodes"
  shows "pushes_one (a @ b @ [opcode]) k"
  unfolding pushes_one_def
proof (intro allI impI, elim conjE)
  fix vm :: VM and pre post
  assume ins: "VM.instructions vm = pre @ (a @ b @ [opcode]) @ post"
    and k: "k \<le> length (VM.constants vm)"
  let ?goal = "Run_from (length pre) vm = Panic \<or>
        (\<exists>e vm'. Run_from (length pre) vm = Return (Some e) vm') \<or>
        (\<exists>vm'. Run_from (length pre) vm
                 = Run_from (length pre + length (a @ b @ [opcode])) vm' \<and>
               VM.instructions vm' = VM.instructions vm \<and> VM.constants vm' = VM.constants vm \<and>
               sp vm' = sp vm + 1 \<and> sp vm < StackSize \<and>
               (\<exists>v. stack vm' (sp vm) = Some v) \<and>
               (\<forall>i < sp vm. stack vm' i = stack vm i))"
  from ins have ins1: "VM.instructions vm = pre @ a @ (b @ opcode # post)"
    by simp
  from a [unfolded pushes_one_def, rule_format, OF conjI, OF ins1 k]
  consider "Run_from (length pre) vm = Panic"
    | "\<exists>e vm'. Run_from (length pre) vm = Return (Some e) vm'"
    | vm1 where "Run_from (length pre) vm = Run_from (length pre + length a) vm1"
        "VM.instructions vm1 = VM.instructions vm" "VM.constants vm1 = VM.constants vm"
        "sp vm1 = sp vm + 1" "sp vm < StackSize" "\<exists>v. stack vm1 (sp vm) = Some v"
        "\<forall>i < sp vm. stack vm1 i = stack vm i"
    by blast
  then show ?goal
  proof cases
    case 3
    from ins 3(2) have ins2: "VM.instructions vm1 = (pre @ a) @ b @ (opcode # post)"
      by simp
    from k 3(3) have k1: "k \<le> length (VM.constants vm1)"
      by simp
    from b [unfolded pushes_one_def, rule_format, OF conjI, OF ins2 k1]
    consider "Run_from (length (pre @ a)) vm1 = Panic"
      | "\<exists>e vm'. Run_from (length (pre @ a)) vm1 = Return (Some e) vm'"
      | vm2 where "Run_from (length (pre @ a)) vm1 = Run_from (length (pre @ a) + length b) vm2"
          "VM.instructions vm2 = VM.instructions vm1" "VM.constants vm2 = VM.constants vm1"
          "sp vm2 = sp vm1 + 1" "sp vm1 < StackSize" "\<exists>v. stack vm2 (sp vm1) = Some v"
          "\<forall>i < sp vm1. stack vm2 i = stack vm1 i"
      by blast
    then show ?thesis
    proof cases
      case 1
      with 3(1) show ?thesis by simp
    next
      case 2
      with 3(1) show ?thesis by simp
    next
      case second: 3
      let ?ip = "length pre + length a + length b"
      have ip: "?ip < length (VM.instructions vm2)"
        by (simp add: second(2) 3(2) ins)
      have "VM.instructions vm2 ! ?ip = opcode"
        by (simp add: second(2) 3(2) ins nth_append)
      with op have at: "VM.instructions vm2 ! ?ip \<in> infix_opcodes"
        by simp
      have sp2: "sp vm2 = sp vm + 2"
        by (simp add: second(4) 3(4))
      have room: "sp vm + 1 < StackSize"
        using second(5) 3(4) by simp
      have run: "Run_from (length pre) vm = Run_from ?ip vm2"
        using 3(1) second(1) by simp
      from Run_from_infix [OF ip at sp2 room] show ?thesis
      proof (elim disjE exE)
        assume "Run_from ?ip vm2 = Panic"
        with run show ?thesis by simp
      next
        fix e vm'
        assume "Run_from ?ip vm2 = Return (Some e) vm'"
        with run show ?thesis by simp
      next
        fix v
        let ?vm3 = "vm2\<lparr>stack := (stack vm2)(sp vm := Some v), sp := sp vm + 1\<rparr>"
        assume "Run_from ?ip vm2 = Run_from (?ip + 1) ?vm3"
        with run have "Run_from (length pre) vm
            = Run_from (length pre + length (a @ b @ [opcode])) ?vm3"
          by (simp add: add.assoc)
        moreover have "\<forall>i < sp vm. stack ?vm3 i = stack vm i"
          using second(7) 3(4,7) by simp
        ultimately show ?thesis
          using second(2,3) 3(2,3,5) by (intro disjI2 exI [of _ ?vm3]) simp
      qed
    qed
  qed auto
qed

lemma currentScope_addConstant:
  "currentScope (snd (addConstant obj c)) = currentScope c"
  by (simp add: addConstant_def currentScope_def)

lemma Compile_literal:
  assumes "currentScope c = Inr s"
    and "emit0 OpConstant [int (fst (addConstant obj c))] (snd (addConstant obj c)) = Inr c'"
  shows "\<exists>code s'. currentScope c' = Inr s' \<and>
           CompilationScope.instructions s' = CompilationScope.instructions s @ code \<and>
           length (Compiler.constants c) \<le> length (Compiler.constants c') \<and>
           pushes_one code (length (Compiler.constants c'))"
proof -
  let ?n = "length (Compiler.constants c)"
  from assms(1) have "currentScope (snd (addConstant obj c)) = Inr s"
    by (simp add: currentScope_addConstant)
  with assms(2) have c': "c' = setCurrentScope (emitted OpConstant [int ?n] s)
      (snd (addConstant obj c))"
    by (simp add: emit0_eq_Inr) (simp add: addConstant_def)
  then have "currentScope c' = Inr (emitted OpConstant [int ?n] s)"
    using assms(1) by (simp add: currentScope_setCurrentScope currentScope_addConstant)
  moreover have "length (Compiler.constants c') = ?n + 1"
    by (simp add: c' setCurrentScope_def addConstant_def)
  moreover have "pushes_one (Make OpConstant [int ?n]) (?n + 1)"
    by (rule pushes_one_Constant) simp
  ultimately show ?thesis
    by (intro exI [of _ "Make OpConstant [int ?n]"] exI [of _ "emitted OpConstant [int ?n] s"])
      (simp add: emitted_def)
qed

lemma emit0_appends:
  assumes "currentScope c = Inr s" and "emit0 opcode [] c = Inr c'"
    and "OperandWidths opcode = Some []"
  shows "\<exists>s'. currentScope c' = Inr s' \<and>
           CompilationScope.instructions s' = CompilationScope.instructions s @ [opcode] \<and>
           Compiler.constants c' = Compiler.constants c"
proof -
  from assms(1,2) have c': "c' = setCurrentScope (emitted opcode [] s) c"
    by (simp add: emit0_eq_Inr)
  with assms(1) have "currentScope c' = Inr (emitted opcode [] s)"
    by (simp add: currentScope_setCurrentScope)
  moreover have "Compiler.constants c' = Compiler.constants c"
    by (simp add: c' setCurrentScope_def)
  ultimately show ?thesis
    using assms(3) by (simp add: emitted_def Make_def)
qed

lemma Compile_InfixE:
  assumes "Compile_Expression txt (ast_InfixExpression operator left right) c = Inr c'"
  shows "\<exists>a b c1 c2 opcode.
     Compile_Expression txt a c = Inr c1 \<and> Compile_Expression txt b c1 = Inr c2 \<and>
     (a = left \<and> b = right \<or> a = right \<and> b = left) \<and>
     opcode \<in> infix_opcodes \<and> emit0 opcode [] c2 = Inr c'"
proof (cases "operator = ''<''")
  case True
  with assms obtain c1 c2 where "Compile_Expression txt right c = Inr c1"
    "Compile_Expression txt left c1 = Inr c2" "emit0 OpGreaterThan [] c2 = Inr c'"
    by (auto simp: seq_eq_Inr)
  moreover have "OpGreaterThan \<in> infix_opcodes"
    by (simp add: infix_opcodes_def)
  ultimately show ?thesis
    by blast
next
  case False
  with assms obtain c1 c2 where c: "Compile_Expression txt left c = Inr c1"
    "Compile_Expression txt right c1 = Inr c2"
    and e: "(if operator = ''+'' then emit0 OpAdd [] c2
          else if operator = ''-'' then emit0 OpSub [] c2
          else if operator = ''*'' then emit0 OpMul [] c2
          else if operator = ''/'' then emit0 OpDiv [] c2
          else if operator = ''=='' then emit0 OpEqual [] c2
          else if operator = ''!='' then emit0 OpNotEqual [] c2
          else if operator = ''>'' then emit0 OpGreaterThan [] c2
          else Inl (Error (Errorf ''unknown operator: %s'' [StrArg operator]))) = Inr c'"
    by (auto simp: seq_eq_Inr)
  from e have "\<exists>opcode. opcode \<in> infix_opcodes \<and> emit0 opcode [] c2 = Inr c'"
    unfolding infix_opcodes_def by (simp split: if_splits) blast+
  with c show ?thesis
    by blast
qed

lemma Compile_Expression_pushes_one:
  assumes "literals_and_operators e" and "currentScope c = Inr s"
    and "Compile_Expression txt e c = Inr c'"
  shows "\<exists>code s'. currentScope c' = Inr s' \<and>
           CompilationScope.instructions s' = CompilationScope.instructions s @ code \<and>
           length (Compiler.constants c) \<le> length (Compiler.constants c') \<and>
           pushes_one code (length (Compiler.constants c'))"
  using assms
proof (induction e arbitrary: c s c' rule: literals_and_operators.induct)
  case (1 v)
  then show ?case
    by (intro Compile_literal [of c s "Integer v"]) (simp_all add: split_beta)
next
  case (2 v)
  from 2(3) have "emit0 (if v then OpTrue else OpFalse) [] c = Inr c'"
    by (simp split: if_splits)
  moreover have "OperandWidths (if v then OpTrue else OpFalse) = Some []"
    by (simp add: OperandWidths_def Opcode_defs)
  ultimately obtain s' where
    "currentScope c' = Inr s'"
    "CompilationScope.instructions s'
       = CompilationScope.instructions s @ [if v then OpTrue else OpFalse]"
    "Compiler.constants c' = Compiler.constants c"
    using emit0_appends [OF 2(2)] by blast
  then show ?case
    using pushes_one_Boolean [of "length (Compiler.constants c')"]
    by (intro exI [of _ "[if v then OpTrue else OpFalse]"] exI [of _ s']) simp
next
  case (3 v)
  then show ?case
    by (intro Compile_literal [of c s "String v"]) (simp_all add: split_beta)
next
  case (4 operator right)
  from 4(4) obtain c1 where c1: "Compile_Expression txt right c = Inr c1"
    and rest: "(if operator = ''!'' then emit0 OpBang [] c1
       else if operator = ''-'' then emit0 OpMinus [] c1
       else Inl (Error (Errorf ''invalid prefix operator: %s'' [StrArg operator]))) = Inr c'"
    by (auto simp: seq_eq_Inr)
  from 4(1) [OF _ 4(3) c1] 4(2) obtain code s1 where
    s1: "currentScope c1 = Inr s1"
      "CompilationScope.instructions s1 = CompilationScope.instructions s @ code"
      "length (Compiler.constants c) \<le> length (Compiler.constants c1)"
      "pushes_one code (length (Compiler.constants c1))"
    by auto
  from rest obtain opcode where opcode: "opcode = OpBang \<or> opcode = OpMinus"
    and e: "emit0 opcode [] c1 = Inr c'"
    by (auto split: if_splits)
  from opcode have "OperandWidths opcode = Some []"
    by (auto simp: OperandWidths_def Opcode_defs)
  from emit0_appends [OF s1(1) e this] obtain s' where
    "currentScope c' = Inr s'"
    "CompilationScope.instructions s' = CompilationScope.instructions s1 @ [opcode]"
    "Compiler.constants c' = Compiler.constants c1"
    by auto
  with s1 pushes_one_prefix [OF s1(4) opcode] show ?case
    by (intro exI [of _ "code @ [opcode]"] exI [of _ s']) simp
next
  case (5 operator left right)
  from 5(3) have lits: "literals_and_operators left" "literals_and_operators right"
    by simp_all
  from Compile_InfixE [OF 5(5)] obtain a b c1 c2 opcode where
    c1: "Compile_Expression txt a c = Inr c1" and c2: "Compile_Expression txt b c1 = Inr c2"
    and ab: "a = left \<and> b = right \<or> a = right \<and> b = left"
    and opcode: "opcode \<in> infix_opcodes" and e: "emit0 opcode [] c2 = Inr c'"
    by blast
  from ab lits have la: "literals_and_operators a" and lb: "literals_and_operators b"
    by auto
  from ab have IHa: "\<And>c s c'. literals_and_operators a \<Longrightarrow> currentScope c = Inr s \<Longrightarrow>
      Compile_Expression txt a c = Inr c' \<Longrightarrow>
      \<exists>code s'. currentScope c' = Inr s' \<and>
        CompilationScope.instructions s' = CompilationScope.instructions s @ code \<and>
        length (Compiler.constants c) \<le> length (Compiler.constants c') \<and>
        pushes_one code (length (Compiler.constants c'))"
    using 5(1,2) by blast
  from ab have IHb: "\<And>c s c'. literals_and_operators b \<Longrightarrow> currentScope c = Inr s \<Longrightarrow>
      Compile_Expression txt b c = Inr c' \<Longrightarrow>
      \<exists>code s'. currentScope c' = Inr s' \<and>
        CompilationScope.instructions s' = CompilationScope.instructions s @ code \<and>
        length (Compiler.constants c) \<le> length (Compiler.constants c') \<and>
        pushes_one code (length (Compiler.constants c'))"
    using 5(1,2) by blast
  from IHa [OF la 5(4) c1] obtain code1 s1 where
    s1: "currentScope c1 = Inr s1"
      "CompilationScope.instructions s1 = CompilationScope.instructions s @ code1"
      "length (Compiler.constants c) \<le> length (Compiler.constants c1)"
      "pushes_one code1 (length (Compiler.constants c1))"
    by auto
  from IHb [OF lb s1(1) c2] obtain code2 s2 where
    s2: "currentScope c2 = Inr s2"
      "CompilationScope.instructions s2 = CompilationScope.instructions s1 @ code2"
      "length (Compiler.constants c1) \<le> length (Compiler.constants c2)"
      "pushes_one code2 (length (Compiler.constants c2))"
    by auto
  from opcode have "OperandWidths opcode = Some []"
    by (auto simp: infix_opcodes_def OperandWidths_def Opcode_defs)
  from emit0_appends [OF s2(1) e this] obtain s' where
    s': "currentScope c' = Inr s'"
      "CompilationScope.instructions s' = CompilationScope.instructions s2 @ [opcode]"
      "Compiler.constants c' = Compiler.constants c2"
    by auto
  from pushes_one_mono [OF s1(4) s2(3)] s2(4) opcode
  have "pushes_one (code1 @ code2 @ [opcode]) (length (Compiler.constants c2))"
    by (rule pushes_one_infix)
  with s1 s2 s' show ?case
    by (intro exI [of _ "code1 @ code2 @ [opcode]"] exI [of _ s']) simp
qed simp_all

lemma Run_from_final_Pop:
  assumes "VM.instructions vm = code @ [OpPop]" and "sp vm = 1"
  shows "Run_from (length code) vm = Return None (vm\<lparr>sp := 0\<rparr>)"
proof -
  from assms(1) have ip: "length code < length (VM.instructions vm)"
    by simp
  from assms have "Run_body (length code) vm = Return (None, length code) (vm\<lparr>sp := 0\<rparr>)"
    by (simp add: Run_body_def Opcode_defs pop_def StackSize_def)
  from Run_from_next [OF ip this] assms(1) show ?thesis
    by (simp add: Run_from_end)
qed

text \<open>
  Claim C5, as stated, fails. The program \<^verbatim>\<open>1[2];\<close> compiles to \<^verbatim>\<open>Constant 0\<close>,
  \<^verbatim>\<open>Constant 1\<close>, \<^verbatim>\<open>Index\<close>, \<^verbatim>\<open>Pop\<close>; the machine has no case for \<^verbatim>\<open>Index\<close>, so the two
  operands stay on the stack, \<^verbatim>\<open>Pop\<close> takes one of them, and \<^verbatim>\<open>Run\<close> returns without an
  error with the stack pointer at 1.
\<close>

theorem index_expression_counterexample:
  "seq (Compile_Program Expression_String
          [ast_ExpressionStatement (ast_IndexExpression (ast_Integer 1) (ast_Integer 2))]
          New_Compiler) Bytecode
     = Inr ([OpConstant, 0, 0, OpConstant, 0, 1, OpIndex, OpPop], [Integer 1, Integer 2]) \<and>
   Run (New [OpConstant, 0, 0, OpConstant, 0, 1, OpIndex, OpPop] [Integer 1, Integer 2])
     = Return None
         (New [OpConstant, 0, 0, OpConstant, 0, 1, OpIndex, OpPop] [Integer 1, Integer 2]
          \<lparr>stack := (\<lambda>_. None)(0 := Some (Integer 1), 1 := Some (Integer 2)), sp := 1\<rparr>) \<and>
   sp (New [OpConstant, 0, 0, OpConstant, 0, 1, OpIndex, OpPop] [Integer 1, Integer 2]
       \<lparr>stack := (\<lambda>_. None)(0 := Some (Integer 1), 1 := Some (Integer 2)), sp := 1\<rparr>) \<noteq> 0"
proof -
  have "seq (Compile_Program Expression_String
          [ast_ExpressionStatement (ast_IndexExpression (ast_Integer 1) (ast_Integer 2))]
          New_Compiler) Bytecode
     = Inr ([OpConstant, 0, 0, OpConstant, 0, 1, OpIndex, OpPop], [Integer 1, Integer 2])"
    by (simp add: Compile_Program_def ev_compile)
  moreover have "Run (New [OpConstant, 0, 0, OpConstant, 0, 1, OpIndex, OpPop]
                    [Integer 1, Integer 2])
     = Return None
         (New [OpConstant, 0, 0, OpConstant, 0, 1, OpIndex, OpPop] [Integer 1, Integer 2]
          \<lparr>stack := (\<lambda>_. None)(0 := Some (Integer 1), 1 := Some (Integer 2)), sp := 1\<rparr>)"
    by (simp add: Run_def Run_from.simps New_def Opcode_defs Run_body_def Let_def Uint16_at_def
        push_def pop_def StackSize_def)
  ultimately show ?thesis
    by simp
qed

text \<open>
  Claim C5, amended. A program that is one expression statement whose expression is built
  from integer, boolean and string literals with prefix and infix operators: when it
  compiles (with a new compiler, of the kind with scopes) and \<^verbatim>\<open>Run\<close> on its bytecode returns
  without an error, the stack pointer is 0 and \<^verbatim>\<open>LastPoppedStackElement\<close> returns the slot
  \<^verbatim>\<open>stack[0]\<close>, which holds a value.
\<close>

theorem single_expression_statement_stack:
  assumes "literals_and_operators expression"
    and "Compile_Program txt [ast_ExpressionStatement expression] New_Compiler = Inr c"
    and "Bytecode c = Inr (ins, cs)"
    and "Run (New ins cs) = Return None vm"
  shows "sp vm = 0 \<and> (\<exists>v. LastPoppedStackElement vm = Some (Some v) \<and> stack vm 0 = Some v)"
proof -
  have s0: "currentScope New_Compiler = Inr emptyScope"
    by (simp add: currentScope_def New_Compiler_def)
  from assms(2) obtain c1 where c1: "Compile_Expression txt expression New_Compiler = Inr c1"
    and e: "emit0 OpPop [] c1 = Inr c"
    by (auto simp: Compile_Program_def seq_eq_Inr)
  from Compile_Expression_pushes_one [OF assms(1) s0 c1] obtain code s1 where
    s1: "currentScope c1 = Inr s1" "CompilationScope.instructions s1 = code"
      "pushes_one code (length (Compiler.constants c1))"
    by (auto simp: emptyScope_def)
  have "OperandWidths OpPop = Some []"
    by (simp add: OperandWidths_def Opcode_defs)
  from emit0_appends [OF s1(1) e this] obtain s' where
    "currentScope c = Inr s'" "CompilationScope.instructions s' = code @ [OpPop]"
    "Compiler.constants c = Compiler.constants c1"
    using s1(2) by auto
  with assms(3) have ins: "ins = code @ [OpPop]" and cs: "cs = Compiler.constants c1"
    by (simp_all add: Bytecode_Inr)
  have "VM.instructions (New ins cs) = [] @ code @ [OpPop]"
    and "length (Compiler.constants c1) \<le> length (VM.constants (New ins cs))"
    by (simp_all add: New_def ins cs)
  with s1(3) [unfolded pushes_one_def, rule_format, of "New ins cs" "[]" "[OpPop]"]
  have "Run_from 0 (New ins cs) = Panic \<or>
        (\<exists>e vm'. Run_from 0 (New ins cs) = Return (Some e) vm') \<or>
        (\<exists>vm'. Run_from 0 (New ins cs) = Run_from (length code) vm' \<and>
               VM.instructions vm' = VM.instructions (New ins cs) \<and>
               sp vm' = sp (New ins cs) + 1 \<and> (\<exists>v. stack vm' (sp (New ins cs)) = Some v))"
    by auto
  with assms(4) obtain vm' v where
    run: "Run_from (length code) vm' = Return None vm"
    and vm': "VM.instructions vm' = code @ [OpPop]" "sp vm' = 1" "stack vm' 0 = Some v"
    by (auto simp: Run_def New_def ins)
  from Run_from_final_Pop [OF vm'(1,2)] run have "vm = vm'\<lparr>sp := 0\<rparr>"
    by simp
  with vm'(3) show ?thesis
    by (simp add: LastPoppedStackElement_def StackSize_def)
qed

theorem single_expression_statement_stack_witness:
  "literals_and_operators (ast_InfixExpression ''+'' (ast_Integer 1) (ast_Integer 2)) \<and>
   seq (Compile_Program Expression_String
          [ast_ExpressionStatement (ast_InfixExpression ''+'' (ast_Integer 1) (ast_Integer 2))]
          New_Compiler) Bytecode
     = Inr ([OpConstant, 0, 0, OpConstant, 0, 1, OpAdd, OpPop], [Integer 1, Integer 2]) \<and>
   Run (New [OpConstant, 0, 0, OpConstant, 0, 1, OpAdd, OpPop] [Integer 1, Integer 2])
     = Return None
         (New [OpConstant, 0, 0, OpConstant, 0, 1, OpAdd, OpPop] [Integer 1, Integer 2]
          \<lparr>stack := (\<lambda>_. None)(1 := Some (Integer 2), 0 := Some (Integer 3)), sp := 0\<rparr>) \<and>
   LastPoppedStackElement
         (New [OpConstant, 0, 0, OpConstant, 0, 1, OpAdd, OpPop] [Integer 1, Integer 2]
          \<lparr>stack := (\<lambda>_. None)(1 := Some (Integer 2), 0 := Some (Integer 3)), sp := 0\<rparr>)
     = Some (Some (Integer 3))"
proof -
  let ?e = "ast_InfixExpression ''+'' (ast_Integer 1) (ast_Integer 2)"
  let ?ins = "[OpConstant, 0, 0, OpConstant, 0, 1, OpAdd, OpPop]"
  let ?cs = "[Integer 1, Integer 2]"
  let ?c = "New_Compiler
          \<lparr>Compiler.constants := ?cs,
            scopes := [\<lparr>CompilationScope.instructions = ?ins,
                        lastInstruction = \<lparr>Opcode = OpPop, Position = 7\<rparr>,
                        previousInstruction = \<lparr>Opcode = OpAdd, Position = 6\<rparr>\<rparr>]\<rparr>"
  let ?vm = "New ?ins ?cs
          \<lparr>stack := (\<lambda>_. None)(1 := Some (Integer 2), 0 := Some (Integer 3)), sp := 0\<rparr>"
  have 1: "literals_and_operators ?e"
    by simp
  have 2: "Compile_Program Expression_String [ast_ExpressionStatement ?e] New_Compiler = Inr ?c"
    by (simp add: Compile_Program_def ev_compile)
  have 3: "Bytecode ?c = Inr (?ins, ?cs)"
    by (simp add: ev_compile)
  have 4: "Run (New ?ins ?cs) = Return None ?vm"
    by (simp add: Run_def Run_from.simps New_def Opcode_defs Run_body_def Let_def Uint16_at_def
        push_def pop_def StackSize_def executeBinaryIntegerOperation_def)
  from single_expression_statement_stack [OF 1 2 3 4] have "LastPoppedStackElement ?vm
      = Some (Some (Integer 3))"
    by (simp add: New_def)
  with 1 2 3 4 show ?thesis
    by simp
qed

end
